theory Spec2Isabelle
  imports Main "HOL-Library.Word"
begin

section \<open>Native types\<close>

text \<open>
  The header \<^verbatim>\<open>scoped_primitive_array.h\<close> is modelled for an LP64 target: pointers,
  \<^verbatim>\<open>size_t\<close> and \<^verbatim>\<open>ssize_t\<close> are 64 bits wide, \<^verbatim>\<open>jint\<close> and \<^verbatim>\<open>jsize\<close> are 32 bits wide.
  A pointer is its address and \<^verbatim>\<open>nullptr\<close> is the address 0. Array handles
  (\<^verbatim>\<open>jintArray\<close>, ...) are opaque pointers as well.
\<close>

type_synonym addr = "64 word"
type_synonym size_t = "64 word"
type_synonym jint = "32 word"
type_synonym jsize = "32 word"

abbreviation (input) nullptr :: addr where
  "nullptr \<equiv> 0"

text \<open>
  Modelled from the spec: \<^verbatim>\<open>jni.h\<close> is not among the sources. \<^verbatim>\<open>JNI_ABORT\<close> is the
  release mode that discards without writing back, with the value the JNI headers
  give it; mode 0 writes back.
\<close>

definition JNI_ABORT :: jint where
  "JNI_ABORT = 2"

text \<open>
  The element kinds of the trait table, one per \<^verbatim>\<open>ARRAY_TRAITS\<close> line, and their sizes
  in bytes.
\<close>

datatype jtype = JBoolean | JByte | JChar | JDouble | JFloat | JInt | JLong | JShort

fun sizeof :: "jtype \<Rightarrow> nat" where
  "sizeof JBoolean = 1"
| "sizeof JByte = 1"
| "sizeof JChar = 2"
| "sizeof JDouble = 8"
| "sizeof JFloat = 4"
| "sizeof JInt = 4"
| "sizeof JLong = 8"
| "sizeof JShort = 2"

text \<open>\<^verbatim>\<open>constexpr static jsize BUFFER_SIZE = 1024 / sizeof(JType);\<close>\<close>

definition BUFFER_SIZE :: "jtype \<Rightarrow> jsize" where
  "BUFFER_SIZE JT = of_nat (1024 div sizeof JT)"

section \<open>The foreign runtime\<close>

text \<open>
  Native memory holds one element of type \<open>'v\<close> at the address where the element
  starts; \<open>ctx\<close> is whatever \<^verbatim>\<open>JNIEnv*\<close> points to, the runtime's own state.
\<close>

record ('v, 'c) world =
  mem :: "addr \<Rightarrow> 'v"
  ctx :: 'c

text \<open>
  \<^verbatim>\<open>ScopedPrimitiveArrayTraits<JType>\<close>: the five static functions of a trait
  specialisation. Each one takes the world and gives the world back; \<^verbatim>\<open>fatalError\<close>
  gives \<open>None\<close> when it does not return.
\<close>

record ('v, 'c) traits =
  getArrayRegion :: "addr \<Rightarrow> size_t \<Rightarrow> size_t \<Rightarrow> addr \<Rightarrow> ('v, 'c) world \<Rightarrow> ('v, 'c) world"
  getArrayElements :: "addr \<Rightarrow> ('v, 'c) world \<Rightarrow> addr \<times> ('v, 'c) world"
  releaseArrayElements :: "addr \<Rightarrow> addr \<Rightarrow> jint \<Rightarrow> ('v, 'c) world \<Rightarrow> ('v, 'c) world"
  getArrayLength :: "addr \<Rightarrow> ('v, 'c) world \<Rightarrow> size_t \<times> ('v, 'c) world"
  fatalError :: "string \<Rightarrow> ('v, 'c) world \<Rightarrow> ('v, 'c) world option"

text \<open>
  Every call that an accessor makes through its traits is recorded, oldest first,
  with its arguments and, for the two calls that return a value, its result.
\<close>

datatype call =
    GetArrayLength addr size_t
  | GetArrayRegion addr size_t size_t addr
  | GetArrayElements addr addr
  | ReleaseArrayElements addr addr jint
  | FatalError string

record ('v, 'c) state =
  calls :: "call list"
  world :: "('v, 'c) world"

text \<open>A constructor either returns the object or never returns (the process aborted).\<close>

datatype ('a, 's) outcome = Returned 'a 's | Aborted 's

definition Traits_getArrayLength ::
  "('v, 'c) traits \<Rightarrow> addr \<Rightarrow> ('v, 'c) state \<Rightarrow> size_t \<times> ('v, 'c) state" where
  "Traits_getArrayLength T array s =
     (case getArrayLength T array (world s) of
        (n, w) \<Rightarrow> (n, \<lparr>calls = calls s @ [GetArrayLength array n], world = w\<rparr>))"

definition Traits_getArrayRegion ::
  "('v, 'c) traits \<Rightarrow> addr \<Rightarrow> size_t \<Rightarrow> size_t \<Rightarrow> addr \<Rightarrow> ('v, 'c) state \<Rightarrow> ('v, 'c) state" where
  "Traits_getArrayRegion T array start len out s =
     \<lparr>calls = calls s @ [GetArrayRegion array start len out],
      world = getArrayRegion T array start len out (world s)\<rparr>"

definition Traits_getArrayElements ::
  "('v, 'c) traits \<Rightarrow> addr \<Rightarrow> ('v, 'c) state \<Rightarrow> addr \<times> ('v, 'c) state" where
  "Traits_getArrayElements T array s =
     (case getArrayElements T array (world s) of
        (p, w) \<Rightarrow> (p, \<lparr>calls = calls s @ [GetArrayElements array p], world = w\<rparr>))"

definition Traits_releaseArrayElements ::
  "('v, 'c) traits \<Rightarrow> addr \<Rightarrow> addr \<Rightarrow> jint \<Rightarrow> ('v, 'c) state \<Rightarrow> ('v, 'c) state" where
  "Traits_releaseArrayElements T array buffer mode s =
     \<lparr>calls = calls s @ [ReleaseArrayElements array buffer mode],
      world = releaseArrayElements T array buffer mode (world s)\<rparr>"

definition Traits_fatalError ::
  "('v, 'c) traits \<Rightarrow> string \<Rightarrow> ('v, 'c) state \<Rightarrow> (unit, ('v, 'c) state) outcome" where
  "Traits_fatalError T msg s =
     (case fatalError T msg (world s) of
        None \<Rightarrow> Aborted \<lparr>calls = calls s @ [FatalError msg], world = world s\<rparr>
      | Some w \<Rightarrow> Returned () \<lparr>calls = calls s @ [FatalError msg], world = w\<rparr>)"

section \<open>ScopedArrayRO\<close>

text \<open>
  The object: the template parameters \<open>JType\<close> and \<open>kNullable\<close>, the three data
  members, and the address of the embedded array \<^verbatim>\<open>mBuffer\<close> (its elements live in
  \<open>mem\<close>). \<open>mSize\<close> holds the 64 bits of \<^verbatim>\<open>SizeT\<close>, which is \<^verbatim>\<open>ssize_t\<close> when
  \<open>kNullable\<close> and \<^verbatim>\<open>size_t\<close> otherwise. \<^verbatim>\<open>mEnv\<close> is constant and is the state that
  every function below takes.
\<close>

record ScopedArrayRO =
  JType :: jtype
  kNullable :: bool
  mJavaArray :: addr
  mRawArray :: addr
  mSize :: size_t
  mBuffer :: addr

text \<open>
  \<^verbatim>\<open>mSize <= BUFFER_SIZE\<close>: the \<^verbatim>\<open>jsize\<close> is widened to the type of \<open>mSize\<close>, so the
  comparison is signed for the nullable variant and unsigned for the other.
\<close>

definition mSize_le_BUFFER_SIZE :: "ScopedArrayRO \<Rightarrow> bool" where
  "mSize_le_BUFFER_SIZE this =
     (if kNullable this then sint (mSize this) \<le> sint (BUFFER_SIZE (JType this))
      else uint (mSize this) \<le> uint (scast (BUFFER_SIZE (JType this)) :: size_t))"

text \<open>
  The constructor. \<open>this\<close> is the storage the object is built in: it fixes the template
  parameters and where \<open>mBuffer\<close> lies; what its other fields hold beforehand is
  indeterminate.
\<close>

definition ScopedArrayRO_ctor ::
  "('v, 'c) traits \<Rightarrow> ScopedArrayRO \<Rightarrow> addr \<Rightarrow> ('v, 'c) state
     \<Rightarrow> (ScopedArrayRO, ('v, 'c) state) outcome" where
  "ScopedArrayRO_ctor T this javaArray s =
     (let this = this\<lparr>mJavaArray := javaArray\<rparr> in
      if mJavaArray this = nullptr then
        (let this = this\<lparr>mSize := - 1, mRawArray := nullptr\<rparr> in
         if \<not> kNullable this then
           (case Traits_fatalError T ''javaArray is null'' s of
              Returned u s' \<Rightarrow> Returned this s'
            | Aborted s' \<Rightarrow> Aborted s')
         else Returned this s)
      else
        (case Traits_getArrayLength T (mJavaArray this) s of
           (n, s1) \<Rightarrow>
             (let this = this\<lparr>mSize := n\<rparr> in
              if mSize_le_BUFFER_SIZE this then
                Returned (this\<lparr>mRawArray := mBuffer this\<rparr>)
                  (Traits_getArrayRegion T (mJavaArray this) 0 (mSize this) (mBuffer this) s1)
              else
                (case Traits_getArrayElements T (mJavaArray this) s1 of
                   (p, s2) \<Rightarrow> Returned (this\<lparr>mRawArray := p\<rparr>) s2))))"

definition ScopedArrayRO_dtor ::
  "('v, 'c) traits \<Rightarrow> ScopedArrayRO \<Rightarrow> ('v, 'c) state \<Rightarrow> ('v, 'c) state" where
  "ScopedArrayRO_dtor T this s =
     (if mRawArray this \<noteq> nullptr \<and> mRawArray this \<noteq> mBuffer this then
        Traits_releaseArrayElements T (mJavaArray this) (mRawArray this) JNI_ABORT s
      else s)"

text \<open>The observers. Pointer arithmetic on \<^verbatim>\<open>JType*\<close> advances by whole elements.\<close>

definition ScopedArrayRO_get :: "ScopedArrayRO \<Rightarrow> addr" where
  "ScopedArrayRO_get this = mRawArray this"

definition ScopedArrayRO_getJavaArray :: "ScopedArrayRO \<Rightarrow> addr" where
  "ScopedArrayRO_getJavaArray this = mJavaArray this"

definition ScopedArrayRO_begin :: "ScopedArrayRO \<Rightarrow> addr" where
  "ScopedArrayRO_begin this = ScopedArrayRO_get this"

definition ScopedArrayRO_end :: "ScopedArrayRO \<Rightarrow> addr" where
  "ScopedArrayRO_end this =
     (if kNullable this \<and> mRawArray this = nullptr then ScopedArrayRO_get this
      else ScopedArrayRO_get this + mSize this * of_nat (sizeof (JType this)))"

text \<open>
  \<^verbatim>\<open>size()\<close> returns \<^verbatim>\<open>SizeT\<close>: the value of \<open>mSize\<close> read as signed for the nullable
  variant and as unsigned for the other.
\<close>

definition ScopedArrayRO_size :: "ScopedArrayRO \<Rightarrow> int" where
  "ScopedArrayRO_size this = (if kNullable this then sint (mSize this) else uint (mSize this))"

text \<open>
  \<^verbatim>\<open>operator[]\<close> is \<^verbatim>\<open>return mRawArray[n];\<close>, that is \<^verbatim>\<open>*(mRawArray + n)\<close>: it reads
  the element \<open>n\<close> elements past the pointer, with no test of the pointer or of the
  index.
\<close>

definition ScopedArrayRO_element :: "ScopedArrayRO \<Rightarrow> size_t \<Rightarrow> addr" where
  "ScopedArrayRO_element this n = mRawArray this + n * of_nat (sizeof (JType this))"

definition ScopedArrayRO_subscript ::
  "ScopedArrayRO \<Rightarrow> size_t \<Rightarrow> ('v, 'c) state \<Rightarrow> 'v" where
  "ScopedArrayRO_subscript this n s = mem (world s) (ScopedArrayRO_element this n)"

text \<open>
  A scope that declares an accessor and leaves: the constructor, then the destructor.
  When the constructor does not return there is no destructor call.
\<close>

definition ScopedArrayRO_scope ::
  "('v, 'c) traits \<Rightarrow> ScopedArrayRO \<Rightarrow> addr \<Rightarrow> ('v, 'c) state \<Rightarrow> ('v, 'c) state" where
  "ScopedArrayRO_scope T this javaArray s =
     (case ScopedArrayRO_ctor T this javaArray s of
        Returned a s1 \<Rightarrow> ScopedArrayRO_dtor T a s1
      | Aborted s1 \<Rightarrow> s1)"

section \<open>ScopedArrayRW\<close>

text \<open>
  The read-write accessor has no embedded buffer, and its \<open>mSize\<close> is a \<^verbatim>\<open>jsize\<close>.
  Its constructor initialises \<open>mEnv\<close> and \<open>mJavaArray\<close> only, so on the null branch
  \<open>mRawArray\<close> and \<open>mSize\<close> keep what the storage \<open>this\<close> held before.
\<close>

record ScopedArrayRW =
  JType_rw :: jtype
  mJavaArray_rw :: addr
  mRawArray_rw :: addr
  mSize_rw :: jsize

definition ScopedArrayRW_ctor ::
  "('v, 'c) traits \<Rightarrow> ScopedArrayRW \<Rightarrow> addr \<Rightarrow> ('v, 'c) state
     \<Rightarrow> (ScopedArrayRW, ('v, 'c) state) outcome" where
  "ScopedArrayRW_ctor T this javaArray s =
     (let this = this\<lparr>mJavaArray_rw := javaArray\<rparr> in
      if mJavaArray_rw this = nullptr then
        (case Traits_fatalError T ''javaArray is null'' s of
           Returned u s' \<Rightarrow> Returned this s'
         | Aborted s' \<Rightarrow> Aborted s')
      else
        (case Traits_getArrayLength T (mJavaArray_rw this) s of
           (n, s1) \<Rightarrow>
             (let this = this\<lparr>mSize_rw := ucast n\<rparr> in
              case Traits_getArrayElements T (mJavaArray_rw this) s1 of
                (p, s2) \<Rightarrow> Returned (this\<lparr>mRawArray_rw := p\<rparr>) s2)))"

definition ScopedArrayRW_dtor ::
  "('v, 'c) traits \<Rightarrow> ScopedArrayRW \<Rightarrow> ('v, 'c) state \<Rightarrow> ('v, 'c) state" where
  "ScopedArrayRW_dtor T this s =
     (if mRawArray_rw this \<noteq> nullptr then
        Traits_releaseArrayElements T (mJavaArray_rw this) (mRawArray_rw this) 0 s
      else s)"

definition ScopedArrayRW_get :: "ScopedArrayRW \<Rightarrow> addr" where
  "ScopedArrayRW_get this = mRawArray_rw this"

definition ScopedArrayRW_getJavaArray :: "ScopedArrayRW \<Rightarrow> addr" where
  "ScopedArrayRW_getJavaArray this = mJavaArray_rw this"

text \<open>\<^verbatim>\<open>size_t size() const { return mSize; }\<close> widens the \<^verbatim>\<open>jsize\<close> with its sign.\<close>

definition ScopedArrayRW_size :: "ScopedArrayRW \<Rightarrow> size_t" where
  "ScopedArrayRW_size this = scast (mSize_rw this)"

definition ScopedArrayRW_begin :: "ScopedArrayRW \<Rightarrow> addr" where
  "ScopedArrayRW_begin this = ScopedArrayRW_get this"

definition ScopedArrayRW_end :: "ScopedArrayRW \<Rightarrow> addr" where
  "ScopedArrayRW_end this =
     ScopedArrayRW_get this + scast (mSize_rw this) * of_nat (sizeof (JType_rw this))"

definition ScopedArrayRW_cbegin :: "ScopedArrayRW \<Rightarrow> addr" where
  "ScopedArrayRW_cbegin this = ScopedArrayRW_get this"

definition ScopedArrayRW_cend :: "ScopedArrayRW \<Rightarrow> addr" where
  "ScopedArrayRW_cend this =
     ScopedArrayRW_get this + scast (mSize_rw this) * of_nat (sizeof (JType_rw this))"

text \<open>
  \<^verbatim>\<open>operator[]\<close>, read and written. Like the read-only one it has no test; the write
  is \<^verbatim>\<open>array[n] = v\<close> through the returned reference.
\<close>

definition ScopedArrayRW_element :: "ScopedArrayRW \<Rightarrow> size_t \<Rightarrow> addr" where
  "ScopedArrayRW_element this n = mRawArray_rw this + n * of_nat (sizeof (JType_rw this))"

definition ScopedArrayRW_subscript ::
  "ScopedArrayRW \<Rightarrow> size_t \<Rightarrow> ('v, 'c) state \<Rightarrow> 'v" where
  "ScopedArrayRW_subscript this n s = mem (world s) (ScopedArrayRW_element this n)"

definition ScopedArrayRW_subscript_assign ::
  "ScopedArrayRW \<Rightarrow> size_t \<Rightarrow> 'v \<Rightarrow> ('v, 'c) state \<Rightarrow> ('v, 'c) state" where
  "ScopedArrayRW_subscript_assign this n v s =
     s\<lparr>world := (world s)\<lparr>mem := (mem (world s))(ScopedArrayRW_element this n := v)\<rparr>\<rparr>"

definition ScopedArrayRW_scope ::
  "('v, 'c) traits \<Rightarrow> ScopedArrayRW \<Rightarrow> addr \<Rightarrow> ('v, 'c) state \<Rightarrow> ('v, 'c) state" where
  "ScopedArrayRW_scope T this javaArray s =
     (case ScopedArrayRW_ctor T this javaArray s of
        Returned a s1 \<Rightarrow> ScopedArrayRW_dtor T a s1
      | Aborted s1 \<Rightarrow> s1)"

section \<open>The guarded access\<close>

text \<open>
  Not in the source: \<^verbatim>\<open>operator[]\<close> with the test that the source leaves to its caller,
  a pointer that is not null and an index below the element count, and \<open>OutOfRange\<close>
  when the test fails. These are here to be compared with the unchecked accesses of
  the source above.
\<close>

datatype fault = OutOfRange

definition guarded_ScopedArrayRO_subscript ::
  "ScopedArrayRO \<Rightarrow> size_t \<Rightarrow> ('v, 'c) state \<Rightarrow> fault + 'v" where
  "guarded_ScopedArrayRO_subscript this n s =
     (if mRawArray this \<noteq> nullptr \<and> uint n < ScopedArrayRO_size this then
        Inr (ScopedArrayRO_subscript this n s)
      else Inl OutOfRange)"

definition guarded_ScopedArrayRW_subscript ::
  "ScopedArrayRW \<Rightarrow> size_t \<Rightarrow> ('v, 'c) state \<Rightarrow> fault + 'v" where
  "guarded_ScopedArrayRW_subscript this n s =
     (if mRawArray_rw this \<noteq> nullptr \<and> n < ScopedArrayRW_size this then
        Inr (ScopedArrayRW_subscript this n s)
      else Inl OutOfRange)"

definition guarded_ScopedArrayRW_subscript_assign ::
  "ScopedArrayRW \<Rightarrow> size_t \<Rightarrow> 'v \<Rightarrow> ('v, 'c) state \<Rightarrow> fault + ('v, 'c) state" where
  "guarded_ScopedArrayRW_subscript_assign this n v s =
     (if mRawArray_rw this \<noteq> nullptr \<and> n < ScopedArrayRW_size this then
        Inr (ScopedArrayRW_subscript_assign this n v s)
      else Inl OutOfRange)"

section \<open>Observer calls\<close>

text \<open>
  A call of an observer takes the object and the state and hands both back with the
  answer, so that what it leaves behind can be compared with what it found.
\<close>

datatype observer = Get | GetJavaArray | Subscript size_t | Begin | End | Size

datatype 'v answer = Pointer addr | Count int | Element 'v

fun ScopedArrayRO_observe ::
  "observer \<Rightarrow> ScopedArrayRO \<Rightarrow> ('v, 'c) state \<Rightarrow> 'v answer \<times> ScopedArrayRO \<times> ('v, 'c) state" where
  "ScopedArrayRO_observe Get this s = (Pointer (ScopedArrayRO_get this), this, s)"
| "ScopedArrayRO_observe GetJavaArray this s = (Pointer (ScopedArrayRO_getJavaArray this), this, s)"
| "ScopedArrayRO_observe (Subscript n) this s = (Element (ScopedArrayRO_subscript this n s), this, s)"
| "ScopedArrayRO_observe Begin this s = (Pointer (ScopedArrayRO_begin this), this, s)"
| "ScopedArrayRO_observe End this s = (Pointer (ScopedArrayRO_end this), this, s)"
| "ScopedArrayRO_observe Size this s = (Count (ScopedArrayRO_size this), this, s)"

fun ScopedArrayRW_observe ::
  "observer \<Rightarrow> ScopedArrayRW \<Rightarrow> ('v, 'c) state \<Rightarrow> 'v answer \<times> ScopedArrayRW \<times> ('v, 'c) state" where
  "ScopedArrayRW_observe Get this s = (Pointer (ScopedArrayRW_get this), this, s)"
| "ScopedArrayRW_observe GetJavaArray this s = (Pointer (ScopedArrayRW_getJavaArray this), this, s)"
| "ScopedArrayRW_observe (Subscript n) this s = (Element (ScopedArrayRW_subscript this n s), this, s)"
| "ScopedArrayRW_observe Begin this s = (Pointer (ScopedArrayRW_begin this), this, s)"
| "ScopedArrayRW_observe End this s = (Pointer (ScopedArrayRW_end this), this, s)"
| "ScopedArrayRW_observe Size this s = (Count (uint (ScopedArrayRW_size this)), this, s)"

section \<open>Counting calls\<close>

fun is_acquire :: "call \<Rightarrow> bool" where
  "is_acquire (GetArrayElements array p) = True"
| "is_acquire c = False"

fun is_release :: "call \<Rightarrow> bool" where
  "is_release (ReleaseArrayElements array buffer mode) = True"
| "is_release c = False"

definition acquire_count :: "call list \<Rightarrow> nat" where
  "acquire_count cs = length (filter is_acquire cs)"

definition release_count :: "call list \<Rightarrow> nat" where
  "release_count cs = length (filter is_release cs)"

text \<open>The pointers that the acquire calls in a list of calls returned, oldest first.\<close>

fun acquired_pointers :: "call list \<Rightarrow> addr list" where
  "acquired_pointers [] = []"
| "acquired_pointers (GetArrayElements array p # cs) = p # acquired_pointers cs"
| "acquired_pointers (c # cs) = acquired_pointers cs"

text \<open>
  What the runtime answers to a construction that starts in state \<open>s\<close>: both
  constructors ask for the length first and acquire in the world that the length
  query leaves behind.
\<close>

definition reported_length :: "('v, 'c) traits \<Rightarrow> addr \<Rightarrow> ('v, 'c) state \<Rightarrow> size_t" where
  "reported_length T array s = fst (getArrayLength T array (world s))"

definition acquired_pointer :: "('v, 'c) traits \<Rightarrow> addr \<Rightarrow> ('v, 'c) state \<Rightarrow> addr" where
  "acquired_pointer T array s =
     fst (getArrayElements T array (snd (getArrayLength T array (world s))))"

text \<open>The calls of repetition \<open>i\<close> (counted from 0) when a scope is run again and again.\<close>

definition repetition_calls ::
  "(('v, 'c) state \<Rightarrow> ('v, 'c) state) \<Rightarrow> nat \<Rightarrow> ('v, 'c) state \<Rightarrow> call list" where
  "repetition_calls scope i s =
     drop (length (calls ((scope ^^ i) s))) (calls ((scope ^^ Suc i) s))"

section \<open>The mock runtime of the tests\<close>

text \<open>
  \<^verbatim>\<open>scoped_primitive_array_test.cpp\<close>: the context the tests pass as \<^verbatim>\<open>JNIEnv*\<close> and the
  mock trait specialisation over it. The mock's hook for a null handle sets
  \<open>NPEThrown\<close> and returns (the test file has it under the name
  \<^verbatim>\<open>throwNullPointerException\<close>).
\<close>

record TestContext =
  dummyPtr :: addr
  getArrayElementsCallCount :: int
  releaseArrayElementsCallCount :: int
  NPEThrown :: bool
  elementsUpdated :: bool

definition LARGE_ARRAY :: addr where
  "LARGE_ARRAY = 1"

definition SMALL_ARRAY :: addr where
  "SMALL_ARRAY = 2"

definition LARGE_ARRAY_SIZE :: size_t where
  "LARGE_ARRAY_SIZE = 8192"

definition SMALL_ARRAY_SIZE :: size_t where
  "SMALL_ARRAY_SIZE = 32"

definition TestTraits :: "('v, TestContext) traits" where
  "TestTraits =
     \<lparr>getArrayRegion = (\<lambda>array start len out w. w),
      getArrayElements = (\<lambda>array w.
        (dummyPtr (ctx w),
         w\<lparr>ctx := (ctx w)\<lparr>getArrayElementsCallCount := getArrayElementsCallCount (ctx w) + 1\<rparr>\<rparr>)),
      releaseArrayElements = (\<lambda>array buffer mode w.
        w\<lparr>ctx := (ctx w)
          \<lparr>releaseArrayElementsCallCount :=
             (if dummyPtr (ctx w) = buffer then releaseArrayElementsCallCount (ctx w) + 1
              else releaseArrayElementsCallCount (ctx w)),
           elementsUpdated := (mode \<noteq> JNI_ABORT)\<rparr>\<rparr>),
      getArrayLength = (\<lambda>array w.
        (if array = LARGE_ARRAY then LARGE_ARRAY_SIZE else SMALL_ARRAY_SIZE, w)),
      fatalError = (\<lambda>msg w. Some (w\<lparr>ctx := (ctx w)\<lparr>NPEThrown := True\<rparr>\<rparr>))\<rparr>"

text \<open>The state after \<^verbatim>\<open>resetCallCount()\<close>, with no call recorded yet.\<close>

definition test_state :: "addr \<Rightarrow> (nat, TestContext) state" where
  "test_state p =
     \<lparr>calls = [],
      world = \<lparr>mem = (\<lambda>a. 0),
               ctx = \<lparr>dummyPtr = p, getArrayElementsCallCount = 0,
                      releaseArrayElementsCallCount = 0, NPEThrown = False,
                      elementsUpdated = False\<rparr>\<rparr>\<rparr>"

text \<open>
  Storage for an accessor before its constructor has run: a read-only one with its
  embedded buffer at address \<open>buf\<close>, and a read-write one whose two uninitialised
  members hold \<open>raw\<close> and \<open>sz\<close>.
\<close>

definition storage_RO :: "jtype \<Rightarrow> bool \<Rightarrow> addr \<Rightarrow> ScopedArrayRO" where
  "storage_RO JT nullable buf =
     \<lparr>JType = JT, kNullable = nullable, mJavaArray = 0, mRawArray = 0, mSize = 0, mBuffer = buf\<rparr>"

definition storage_RW :: "jtype \<Rightarrow> addr \<Rightarrow> jsize \<Rightarrow> ScopedArrayRW" where
  "storage_RW JT raw sz =
     \<lparr>JType_rw = JT, mJavaArray_rw = 0, mRawArray_rw = raw, mSize_rw = sz\<rparr>"

text \<open>
  A runtime without state: it reports the length \<open>n\<close> and the pointer \<open>p\<close> for every
  handle, and its error hook returns.
\<close>

definition FixedTraits :: "size_t \<Rightarrow> addr \<Rightarrow> ('v, 'c) traits" where
  "FixedTraits n p =
     \<lparr>getArrayRegion = (\<lambda>array start len out w. w),
      getArrayElements = (\<lambda>array w. (p, w)),
      releaseArrayElements = (\<lambda>array buffer mode w. w),
      getArrayLength = (\<lambda>array w. (n, w)),
      fatalError = (\<lambda>msg w. Some w)\<rparr>"

section \<open>Auxiliary facts\<close>

lemma BUFFER_SIZE_sint: "sint (BUFFER_SIZE JT) = int (1024 div sizeof JT)"
  by (cases JT) (simp_all add: BUFFER_SIZE_def)

lemma BUFFER_SIZE_uint: "uint (scast (BUFFER_SIZE JT) :: size_t) = int (1024 div sizeof JT)"
  by (cases JT) (simp_all add: BUFFER_SIZE_def)

lemma capacity_le: "1024 div sizeof JT \<le> 1024"
  by (cases JT) simp_all

lemma sint_eq_uint_small:
  fixes n :: size_t
  assumes "uint n \<le> 1024"
  shows "sint n = uint n"
proof -
  have "sint n = signed_take_bit 63 (uint n)"
    by (simp add: sint_uint)
  also have "\<dots> = uint n"
  proof (rule signed_take_bit_int_eq_self)
    have "(0::int) \<le> uint n" by simp
    moreover have "- (2 ^ 63) \<le> (0::int)" by simp
    ultimately show "- (2 ^ 63) \<le> uint n" by (rule order_trans [rotated])
    show "uint n < 2 ^ 63" using assms by simp
  qed
  finally show ?thesis .
qed

lemma sint_eq_uint_nonneg:
  fixes n :: size_t
  assumes "0 \<le> sint n"
  shows "sint n = uint n"
proof -
  have "sint n < 2 ^ 63"
    using sint_lt [of n] by simp
  then have "sint n < 2 ^ 64" by simp
  then have "take_bit 64 (sint n) = sint n"
    using assms by (simp add: take_bit_int_eq_self)
  moreover have "uint n = take_bit 64 (sint n)"
    using uint_sint [of n] by simp
  ultimately show ?thesis by simp
qed

lemma mSize_le_BUFFER_SIZE_small:
  assumes "unat (mSize this) \<le> 1024 div sizeof (JType this)"
  shows "mSize_le_BUFFER_SIZE this"
proof -
  have "int (unat (mSize this)) = uint (mSize this)"
    by simp
  then have u: "uint (mSize this) \<le> int (1024 div sizeof (JType this))"
    using assms by linarith
  have "int (1024 div sizeof (JType this)) \<le> 1024"
    using capacity_le [of "JType this"] by linarith
  then have "sint (mSize this) = uint (mSize this)"
    using u sint_eq_uint_small [of "mSize this"] by linarith
  then show ?thesis
    using u by (simp add: mSize_le_BUFFER_SIZE_def BUFFER_SIZE_sint BUFFER_SIZE_uint)
qed

lemma mSize_le_BUFFER_SIZE_large:
  assumes "1024 div sizeof (JType this) < unat (mSize this)"
    and "kNullable this \<Longrightarrow> 0 \<le> sint (mSize this)"
  shows "\<not> mSize_le_BUFFER_SIZE this"
proof -
  have "int (unat (mSize this)) = uint (mSize this)"
    by simp
  then have u: "int (1024 div sizeof (JType this)) < uint (mSize this)"
    using assms(1) by linarith
  show ?thesis
  proof (cases "kNullable this")
    case True
    then have "sint (mSize this) = uint (mSize this)"
      using assms(2) sint_eq_uint_nonneg by blast
    then show ?thesis
      using True u by (simp add: mSize_le_BUFFER_SIZE_def BUFFER_SIZE_sint)
  next
    case False
    then show ?thesis
      using u by (simp add: mSize_le_BUFFER_SIZE_def BUFFER_SIZE_uint)
  qed
qed

lemma read_only_null_handle_required:
  assumes "\<not> kNullable this"
    and "fatalError T ''javaArray is null'' (world s) = Some w"
  shows "ScopedArrayRO_ctor T this nullptr s =
           Returned (this\<lparr>mJavaArray := nullptr, mSize := - 1, mRawArray := nullptr\<rparr>)
             \<lparr>calls = calls s @ [FatalError ''javaArray is null''], world = w\<rparr>"
    and "ScopedArrayRO_dtor T (this\<lparr>mJavaArray := nullptr, mSize := - 1, mRawArray := nullptr\<rparr>) s' = s'"
  using assms
  by (simp_all add: ScopedArrayRO_ctor_def Let_def Traits_fatalError_def ScopedArrayRO_dtor_def)

lemma read_only_null_handle_required_abort:
  assumes "\<not> kNullable this"
    and "fatalError T ''javaArray is null'' (world s) = None"
  shows "ScopedArrayRO_ctor T this nullptr s =
           Aborted \<lparr>calls = calls s @ [FatalError ''javaArray is null''], world = world s\<rparr>"
  using assms
  by (simp add: ScopedArrayRO_ctor_def Let_def Traits_fatalError_def)

lemma ScopedArrayRO_ctor_keeps_handle:
  "ScopedArrayRO_ctor T this h s = Returned a s1 \<Longrightarrow> mJavaArray a = h"
  by (auto simp: ScopedArrayRO_ctor_def Let_def split: if_splits prod.splits outcome.splits)

lemma ScopedArrayRW_ctor_keeps_handle:
  "ScopedArrayRW_ctor T this h s = Returned a s1 \<Longrightarrow> mJavaArray_rw a = h"
  by (auto simp: ScopedArrayRW_ctor_def Let_def split: if_splits prod.splits outcome.splits)

lemma repetition_calls_step:
  assumes "calls (scope ((scope ^^ i) s)) = calls ((scope ^^ i) s) @ cs"
  shows "repetition_calls scope i s = cs"
  using assms by (simp add: repetition_calls_def)

lemma sizeof_bounds: "0 < sizeof JT \<and> sizeof JT \<le> 8"
  by (cases JT) simp_all

lemma unat_sizeof: "unat (of_nat (sizeof JT) :: size_t) = sizeof JT"
  by (cases JT) simp_all

lemma unat_element:
  fixes p n :: size_t
  assumes "unat p + unat n * sizeof JT < 2 ^ 64"
  shows "unat (p + n * of_nat (sizeof JT)) = unat p + unat n * sizeof JT"
proof -
  have m: "unat n * sizeof JT < 2 ^ 64"
    using assms by linarith
  have "unat (n * of_nat (sizeof JT) :: size_t) = unat n * unat (of_nat (sizeof JT) :: size_t)"
    using m unat_mult_lem [of n "of_nat (sizeof JT) :: size_t"] by (simp add: unat_sizeof)
  then have e: "unat (n * of_nat (sizeof JT) :: size_t) = unat n * sizeof JT"
    by (simp add: unat_sizeof)
  have "unat (p + n * of_nat (sizeof JT)) = unat p + unat (n * of_nat (sizeof JT) :: size_t)"
    using assms e unat_add_lem [of p "n * of_nat (sizeof JT)"] by simp
  then show ?thesis
    using e by simp
qed

lemma element_in_view:
  fixes p k n :: size_t
  assumes view: "unat p + unat k * sizeof JT < 2 ^ 64"
    and elem: "unat p + unat n * sizeof JT < 2 ^ 64"
  shows "(p \<le> p + n * of_nat (sizeof JT) \<and> p + n * of_nat (sizeof JT) < p + k * of_nat (sizeof JT))
           = (n < k)"
proof -
  have "0 < sizeof JT"
    using sizeof_bounds [of JT] by simp
  then have "(unat n * sizeof JT < unat k * sizeof JT) = (unat n < unat k)"
    by simp
  then show ?thesis
    using unat_element [OF view] unat_element [OF elem]
    by (simp add: word_le_nat_alt word_less_nat_alt)
qed

lemma ScopedArrayRO_size_less:
  assumes "0 \<le> ScopedArrayRO_size ro"
  shows "(uint n < ScopedArrayRO_size ro) = (n < mSize ro)"
proof (cases "kNullable ro")
  case True
  then have "sint (mSize ro) = uint (mSize ro)"
    using assms sint_eq_uint_nonneg [of "mSize ro"] by (simp add: ScopedArrayRO_size_def)
  then show ?thesis
    using True by (simp add: ScopedArrayRO_size_def word_less_def)
next
  case False
  then show ?thesis
    by (simp add: ScopedArrayRO_size_def word_less_def)
qed

lemma ScopedArrayRO_element_in_view:
  assumes "mRawArray ro \<noteq> nullptr"
    and "0 \<le> ScopedArrayRO_size ro"
    and "unat (mRawArray ro) + unat (mSize ro) * sizeof (JType ro) < 2 ^ 64"
    and "unat (mRawArray ro) + unat n * sizeof (JType ro) < 2 ^ 64"
  shows "(ScopedArrayRO_begin ro \<le> ScopedArrayRO_element ro n
          \<and> ScopedArrayRO_element ro n < ScopedArrayRO_end ro) = (uint n < ScopedArrayRO_size ro)"
  using assms(1) element_in_view [OF assms(3,4)] ScopedArrayRO_size_less [OF assms(2), of n]
  by (simp add: ScopedArrayRO_begin_def ScopedArrayRO_end_def ScopedArrayRO_get_def
      ScopedArrayRO_element_def)

lemma ScopedArrayRW_element_in_view:
  assumes "unat (mRawArray_rw rw) + unat (ScopedArrayRW_size rw) * sizeof (JType_rw rw) < 2 ^ 64"
    and "unat (mRawArray_rw rw) + unat n * sizeof (JType_rw rw) < 2 ^ 64"
  shows "(ScopedArrayRW_begin rw \<le> ScopedArrayRW_element rw n
          \<and> ScopedArrayRW_element rw n < ScopedArrayRW_end rw) = (n < ScopedArrayRW_size rw)"
  using element_in_view [OF assms]
  by (simp add: ScopedArrayRW_begin_def ScopedArrayRW_end_def ScopedArrayRW_get_def
      ScopedArrayRW_element_def ScopedArrayRW_size_def)

lemma acquire_count_acquired_pointers: "acquire_count cs = length (acquired_pointers cs)"
  by (induction cs rule: acquired_pointers.induct) (simp_all add: acquire_count_def)

lemma mSize_le_BUFFER_SIZE_cong:
  "mSize_le_BUFFER_SIZE (this\<lparr>mJavaArray := h, mSize := n\<rparr>) = mSize_le_BUFFER_SIZE (this\<lparr>mSize := n\<rparr>)"
  by (simp add: mSize_le_BUFFER_SIZE_def)

lemma ScopedArrayRO_scope_calls:
  "\<exists>cs. calls (ScopedArrayRO_scope T ro h s) = calls s @ cs
     \<and> acquired_pointers cs =
         (if h \<noteq> nullptr \<and> \<not> mSize_le_BUFFER_SIZE (ro\<lparr>mSize := reported_length T h s\<rparr>)
          then [acquired_pointer T h s] else [])
     \<and> release_count cs =
         (if h \<noteq> nullptr \<and> \<not> mSize_le_BUFFER_SIZE (ro\<lparr>mSize := reported_length T h s\<rparr>)
             \<and> acquired_pointer T h s \<noteq> nullptr \<and> acquired_pointer T h s \<noteq> mBuffer ro
          then 1 else 0)"
proof (cases "h = nullptr")
  case True
  then show ?thesis
    by (cases "fatalError T ''javaArray is null'' (world s)")
      (simp_all add: ScopedArrayRO_scope_def ScopedArrayRO_ctor_def ScopedArrayRO_dtor_def Let_def
        Traits_fatalError_def release_count_def)
next
  case False
  obtain n w1 where l: "getArrayLength T h (world s) = (n, w1)"
    by (cases "getArrayLength T h (world s)") blast
  obtain p w2 where a: "getArrayElements T h w1 = (p, w2)"
    by (cases "getArrayElements T h w1") blast
  have n: "reported_length T h s = n"
    using l by (simp add: reported_length_def)
  have p: "acquired_pointer T h s = p"
    using l a by (simp add: acquired_pointer_def)
  show ?thesis
  proof (cases "mSize_le_BUFFER_SIZE (ro\<lparr>mSize := n\<rparr>)")
    case True
    then show ?thesis
      using False l n
      by (simp add: ScopedArrayRO_scope_def ScopedArrayRO_ctor_def ScopedArrayRO_dtor_def Let_def
          Traits_getArrayLength_def Traits_getArrayRegion_def mSize_le_BUFFER_SIZE_cong
          release_count_def)
  next
    case large: False
    show ?thesis
    proof (cases "p \<noteq> nullptr \<and> p \<noteq> mBuffer ro")
      case True
      then show ?thesis
        using False l a n p large
        by (simp add: ScopedArrayRO_scope_def ScopedArrayRO_ctor_def ScopedArrayRO_dtor_def Let_def
            Traits_getArrayLength_def Traits_getArrayElements_def Traits_releaseArrayElements_def
            mSize_le_BUFFER_SIZE_cong release_count_def)
    next
      case False
      then show ?thesis
        using \<open>h \<noteq> nullptr\<close> l a n p large
        by (auto simp add: ScopedArrayRO_scope_def ScopedArrayRO_ctor_def ScopedArrayRO_dtor_def
            Let_def Traits_getArrayLength_def Traits_getArrayElements_def
            mSize_le_BUFFER_SIZE_cong release_count_def)
    qed
  qed
qed

lemma ScopedArrayRW_scope_calls:
  assumes "h \<noteq> nullptr"
  shows "\<exists>cs. calls (ScopedArrayRW_scope T rw h s) = calls s @ cs
           \<and> acquired_pointers cs = [acquired_pointer T h s]
           \<and> release_count cs = (if acquired_pointer T h s \<noteq> nullptr then 1 else 0)"
proof -
  obtain n w1 where l: "getArrayLength T h (world s) = (n, w1)"
    by (cases "getArrayLength T h (world s)") blast
  obtain p w2 where a: "getArrayElements T h w1 = (p, w2)"
    by (cases "getArrayElements T h w1") blast
  have p: "acquired_pointer T h s = p"
    using l a by (simp add: acquired_pointer_def)
  show ?thesis
    using assms l a p
    by (auto simp add: ScopedArrayRW_scope_def ScopedArrayRW_ctor_def ScopedArrayRW_dtor_def
        Let_def Traits_getArrayLength_def Traits_getArrayElements_def
        Traits_releaseArrayElements_def release_count_def)
qed

lemma ScopedArrayRO_repetition:
  "acquired_pointers (repetition_calls (ScopedArrayRO_scope T ro h) k s) =
     (if h \<noteq> nullptr
         \<and> \<not> mSize_le_BUFFER_SIZE
              (ro\<lparr>mSize := reported_length T h ((ScopedArrayRO_scope T ro h ^^ k) s)\<rparr>)
      then [acquired_pointer T h ((ScopedArrayRO_scope T ro h ^^ k) s)] else [])
   \<and> release_count (repetition_calls (ScopedArrayRO_scope T ro h) k s) =
     (if h \<noteq> nullptr
         \<and> \<not> mSize_le_BUFFER_SIZE
              (ro\<lparr>mSize := reported_length T h ((ScopedArrayRO_scope T ro h ^^ k) s)\<rparr>)
         \<and> acquired_pointer T h ((ScopedArrayRO_scope T ro h ^^ k) s) \<noteq> nullptr
         \<and> acquired_pointer T h ((ScopedArrayRO_scope T ro h ^^ k) s) \<noteq> mBuffer ro
      then 1 else 0)"
proof -
  obtain cs where
    c: "calls (ScopedArrayRO_scope T ro h ((ScopedArrayRO_scope T ro h ^^ k) s)) =
         calls ((ScopedArrayRO_scope T ro h ^^ k) s) @ cs"
    and r: "acquired_pointers cs =
         (if h \<noteq> nullptr
             \<and> \<not> mSize_le_BUFFER_SIZE
                  (ro\<lparr>mSize := reported_length T h ((ScopedArrayRO_scope T ro h ^^ k) s)\<rparr>)
          then [acquired_pointer T h ((ScopedArrayRO_scope T ro h ^^ k) s)] else [])"
      "release_count cs =
         (if h \<noteq> nullptr
             \<and> \<not> mSize_le_BUFFER_SIZE
                  (ro\<lparr>mSize := reported_length T h ((ScopedArrayRO_scope T ro h ^^ k) s)\<rparr>)
             \<and> acquired_pointer T h ((ScopedArrayRO_scope T ro h ^^ k) s) \<noteq> nullptr
             \<and> acquired_pointer T h ((ScopedArrayRO_scope T ro h ^^ k) s) \<noteq> mBuffer ro
          then 1 else 0)"
    using ScopedArrayRO_scope_calls [of T ro h "(ScopedArrayRO_scope T ro h ^^ k) s"] by blast
  have "repetition_calls (ScopedArrayRO_scope T ro h) k s = cs"
    using c by (rule repetition_calls_step)
  then show ?thesis
    using r by simp
qed

lemma ScopedArrayRW_repetition:
  assumes "h \<noteq> nullptr"
  shows "acquired_pointers (repetition_calls (ScopedArrayRW_scope T rw h) k s) =
           [acquired_pointer T h ((ScopedArrayRW_scope T rw h ^^ k) s)]
         \<and> release_count (repetition_calls (ScopedArrayRW_scope T rw h) k s) =
           (if acquired_pointer T h ((ScopedArrayRW_scope T rw h ^^ k) s) \<noteq> nullptr then 1 else 0)"
proof -
  obtain cs where
    c: "calls (ScopedArrayRW_scope T rw h ((ScopedArrayRW_scope T rw h ^^ k) s)) =
         calls ((ScopedArrayRW_scope T rw h ^^ k) s) @ cs"
    and r: "acquired_pointers cs = [acquired_pointer T h ((ScopedArrayRW_scope T rw h ^^ k) s)]"
      "release_count cs =
         (if acquired_pointer T h ((ScopedArrayRW_scope T rw h ^^ k) s) \<noteq> nullptr then 1 else 0)"
    using ScopedArrayRW_scope_calls [OF assms, of T rw "(ScopedArrayRW_scope T rw h ^^ k) s"]
    by blast
  have "repetition_calls (ScopedArrayRW_scope T rw h) k s = cs"
    using c by (rule repetition_calls_step)
  then show ?thesis
    using r by simp
qed

text \<open>
  A length of \<open>2 ^ 63\<close> or more is negative once stored in the \<^verbatim>\<open>ssize_t\<close> of the
  nullable variant, so the signed comparison sends it down the buffer path.
\<close>

lemma nullable_length_read_as_negative:
  "ScopedArrayRO_ctor (FixedTraits 9223372036854775808 512) (storage_RO JByte True 4096) 1
     \<lparr>calls = [], world = \<lparr>mem = (\<lambda>a. 0 :: nat), ctx = ()\<rparr>\<rparr> =
   Returned
     \<lparr>JType = JByte, kNullable = True, mJavaArray = 1, mRawArray = 4096,
      mSize = 9223372036854775808, mBuffer = 4096\<rparr>
     \<lparr>calls = [GetArrayLength 1 9223372036854775808,
               GetArrayRegion 1 0 9223372036854775808 4096],
      world = \<lparr>mem = (\<lambda>a. 0 :: nat), ctx = ()\<rparr>\<rparr>"
  by (simp add: ScopedArrayRO_ctor_def FixedTraits_def storage_RO_def Let_def
      Traits_getArrayLength_def Traits_getArrayRegion_def mSize_le_BUFFER_SIZE_def BUFFER_SIZE_def)

section \<open>Properties\<close>

text \<open>
  C1. A non-null handle whose length is at most 1024 bytes divided by the element
  size: the read-only constructor asks for the length, copies the range from 0 over the
  whole length into the embedded buffer with the region copy, and points the view at
  that buffer. It makes no other call, so no acquire, and the destructor, whenever it
  runs, leaves the state as it is: no release.
\<close>

theorem small_array_is_copied:
  assumes "h \<noteq> nullptr"
    and "getArrayLength T h (world s) = (n, w)"
    and "unat n \<le> 1024 div sizeof (JType this)"
  shows "ScopedArrayRO_ctor T this h s =
           Returned (this\<lparr>mJavaArray := h, mSize := n, mRawArray := mBuffer this\<rparr>)
             \<lparr>calls = calls s @ [GetArrayLength h n, GetArrayRegion h 0 n (mBuffer this)],
              world = getArrayRegion T h 0 n (mBuffer this) w\<rparr>
         \<and> ScopedArrayRO_get (this\<lparr>mJavaArray := h, mSize := n, mRawArray := mBuffer this\<rparr>)
             = mBuffer this
         \<and> ScopedArrayRO_dtor T (this\<lparr>mJavaArray := h, mSize := n, mRawArray := mBuffer this\<rparr>) s' = s'"
proof -
  have "mSize_le_BUFFER_SIZE (this\<lparr>mJavaArray := h, mSize := n\<rparr>)"
    using assms(3) by (intro mSize_le_BUFFER_SIZE_small) simp
  then show ?thesis
    using assms(1,2)
    by (simp add: ScopedArrayRO_ctor_def Let_def Traits_getArrayLength_def
        Traits_getArrayRegion_def ScopedArrayRO_get_def ScopedArrayRO_dtor_def)
qed

theorem small_array_is_copied_witness:
  "SMALL_ARRAY \<noteq> nullptr
   \<and> getArrayLength TestTraits SMALL_ARRAY (world (test_state 512)) = (32, world (test_state 512))
   \<and> unat (32 :: size_t) \<le> 1024 div sizeof (JType (storage_RO JByte False 4096))
   \<and> ScopedArrayRO_ctor TestTraits (storage_RO JByte False 4096) SMALL_ARRAY (test_state 512) =
       Returned
         \<lparr>JType = JByte, kNullable = False, mJavaArray = SMALL_ARRAY, mRawArray = 4096,
          mSize = 32, mBuffer = 4096\<rparr>
         \<lparr>calls = [GetArrayLength SMALL_ARRAY 32, GetArrayRegion SMALL_ARRAY 0 32 4096],
          world = world (test_state 512)\<rparr>
   \<and> ScopedArrayRO_scope TestTraits (storage_RO JByte False 4096) SMALL_ARRAY (test_state 512) =
       \<lparr>calls = [GetArrayLength SMALL_ARRAY 32, GetArrayRegion SMALL_ARRAY 0 32 4096],
        world = world (test_state 512)\<rparr>"
proof -
  have h: "SMALL_ARRAY \<noteq> nullptr"
    by (simp add: SMALL_ARRAY_def)
  have l: "getArrayLength TestTraits SMALL_ARRAY (world (test_state 512))
             = (32, world (test_state 512))"
    by (simp add: TestTraits_def SMALL_ARRAY_def LARGE_ARRAY_def SMALL_ARRAY_SIZE_def)
  have c: "unat (32 :: size_t) \<le> 1024 div sizeof (JType (storage_RO JByte False 4096))"
    by (simp add: storage_RO_def)
  show ?thesis
    using h l c small_array_is_copied [OF h l c]
    by (simp add: storage_RO_def TestTraits_def test_state_def ScopedArrayRO_scope_def)
qed


text \<open>
  C5. The nullable read-only accessor built on a null handle: \<open>size()\<close> is \<open>-1\<close>,
  \<open>get()\<close>, \<open>begin()\<close> and \<open>end()\<close> are null, and neither the constructor nor the
  destructor makes any call: the constructor returns the state it was given, with its
  record of calls, and so does the destructor whenever it runs.
\<close>

theorem nullable_null_handle_is_empty:
  assumes "kNullable this"
  shows "ScopedArrayRO_ctor T this nullptr s =
           Returned (this\<lparr>mJavaArray := nullptr, mSize := - 1, mRawArray := nullptr\<rparr>) s
         \<and> ScopedArrayRO_size (this\<lparr>mJavaArray := nullptr, mSize := - 1, mRawArray := nullptr\<rparr>) = - 1
         \<and> ScopedArrayRO_get (this\<lparr>mJavaArray := nullptr, mSize := - 1, mRawArray := nullptr\<rparr>) = nullptr
         \<and> ScopedArrayRO_begin (this\<lparr>mJavaArray := nullptr, mSize := - 1, mRawArray := nullptr\<rparr>) = nullptr
         \<and> ScopedArrayRO_end (this\<lparr>mJavaArray := nullptr, mSize := - 1, mRawArray := nullptr\<rparr>) = nullptr
         \<and> ScopedArrayRO_dtor T (this\<lparr>mJavaArray := nullptr, mSize := - 1, mRawArray := nullptr\<rparr>) s' = s'
         \<and> ScopedArrayRO_scope T this nullptr s = s"
  using assms
  by (simp add: ScopedArrayRO_ctor_def ScopedArrayRO_size_def ScopedArrayRO_get_def
      ScopedArrayRO_begin_def ScopedArrayRO_end_def ScopedArrayRO_dtor_def
      ScopedArrayRO_scope_def Let_def)

theorem nullable_null_handle_is_empty_witness:
  "kNullable (storage_RO JByte True 4096)
   \<and> ScopedArrayRO_ctor TestTraits (storage_RO JByte True 4096) nullptr (test_state 512) =
       Returned
         \<lparr>JType = JByte, kNullable = True, mJavaArray = nullptr, mRawArray = nullptr,
          mSize = - 1, mBuffer = 4096\<rparr> (test_state 512)
   \<and> ScopedArrayRO_size
         \<lparr>JType = JByte, kNullable = True, mJavaArray = nullptr, mRawArray = nullptr,
          mSize = - 1, mBuffer = 4096\<rparr> = - 1
   \<and> ScopedArrayRO_end
         \<lparr>JType = JByte, kNullable = True, mJavaArray = nullptr, mRawArray = nullptr,
          mSize = - 1, mBuffer = 4096\<rparr> = nullptr
   \<and> ScopedArrayRO_scope TestTraits (storage_RO JByte True 4096) nullptr (test_state 512)
       = test_state 512"
proof -
  have k: "kNullable (storage_RO JByte True 4096)"
    by (simp add: storage_RO_def)
  show ?thesis
    using k nullable_null_handle_is_empty [OF k, of TestTraits "test_state 512"]
    by (simp add: storage_RO_def)
qed

text \<open>
  C2, as the claim states it, fails where the acquire operation returns null: for the
  mock runtime with a null backing pointer and the large array, the scope records the
  length query and the acquire and no release at all.
\<close>

theorem failed_acquire_is_not_released:
  "LARGE_ARRAY \<noteq> nullptr
   \<and> 1024 div sizeof JByte < unat LARGE_ARRAY_SIZE
   \<and> calls (ScopedArrayRO_scope TestTraits (storage_RO JByte False 4096) LARGE_ARRAY (test_state 0)) =
       [GetArrayLength LARGE_ARRAY LARGE_ARRAY_SIZE, GetArrayElements LARGE_ARRAY nullptr]
   \<and> release_count
       (calls (ScopedArrayRO_scope TestTraits (storage_RO JByte False 4096) LARGE_ARRAY (test_state 0)))
       \<noteq> 1"
  by (simp add: LARGE_ARRAY_def LARGE_ARRAY_SIZE_def ScopedArrayRO_scope_def ScopedArrayRO_ctor_def
      ScopedArrayRO_dtor_def storage_RO_def TestTraits_def test_state_def Let_def
      Traits_getArrayLength_def Traits_getArrayElements_def mSize_le_BUFFER_SIZE_def
      BUFFER_SIZE_def release_count_def)

text \<open>
  C2, amended. A non-null handle whose length exceeds the capacity (and, for the
  nullable variant, is not negative when read as \<^verbatim>\<open>ssize_t\<close>): the constructor asks for
  the length and acquires, and the view pointer is what acquire returned. The
  destructor makes exactly one release call, with \<open>JNI_ABORT\<close>, when that pointer is
  not null and not the address of the embedded buffer, and no call otherwise.
\<close>

theorem large_array_is_pinned:
  assumes "h \<noteq> nullptr"
    and "getArrayLength T h (world s) = (n, w1)"
    and "1024 div sizeof (JType this) < unat n"
    and "kNullable this \<Longrightarrow> 0 \<le> sint n"
    and "getArrayElements T h w1 = (p, w2)"
  shows "ScopedArrayRO_ctor T this h s =
           Returned (this\<lparr>mJavaArray := h, mSize := n, mRawArray := p\<rparr>)
             \<lparr>calls = calls s @ [GetArrayLength h n, GetArrayElements h p], world = w2\<rparr>
         \<and> ScopedArrayRO_get (this\<lparr>mJavaArray := h, mSize := n, mRawArray := p\<rparr>) = p
         \<and> ScopedArrayRO_dtor T (this\<lparr>mJavaArray := h, mSize := n, mRawArray := p\<rparr>) s' =
             (if p \<noteq> nullptr \<and> p \<noteq> mBuffer this then
                \<lparr>calls = calls s' @ [ReleaseArrayElements h p JNI_ABORT],
                 world = releaseArrayElements T h p JNI_ABORT (world s')\<rparr>
              else s')"
proof -
  have "\<not> mSize_le_BUFFER_SIZE (this\<lparr>mJavaArray := h, mSize := n\<rparr>)"
    using assms(3,4) by (intro mSize_le_BUFFER_SIZE_large) simp_all
  then show ?thesis
    using assms(1,2,5)
    by (simp add: ScopedArrayRO_ctor_def Let_def Traits_getArrayLength_def
        Traits_getArrayElements_def ScopedArrayRO_get_def ScopedArrayRO_dtor_def
        Traits_releaseArrayElements_def)
qed

theorem large_array_is_pinned_witness:
  "LARGE_ARRAY \<noteq> nullptr
   \<and> 1024 div sizeof (JType (storage_RO JByte True 4096)) < unat (8192 :: size_t)
   \<and> 0 \<le> sint (8192 :: size_t)
   \<and> ScopedArrayRO_ctor TestTraits (storage_RO JByte True 4096) LARGE_ARRAY (test_state 512) =
       Returned
         \<lparr>JType = JByte, kNullable = True, mJavaArray = LARGE_ARRAY, mRawArray = 512,
          mSize = 8192, mBuffer = 4096\<rparr>
         \<lparr>calls = [GetArrayLength LARGE_ARRAY 8192, GetArrayElements LARGE_ARRAY 512],
          world = snd (getArrayElements TestTraits LARGE_ARRAY (world (test_state 512)))\<rparr>
   \<and> calls (ScopedArrayRO_scope TestTraits (storage_RO JByte True 4096) LARGE_ARRAY (test_state 512)) =
       [GetArrayLength LARGE_ARRAY 8192, GetArrayElements LARGE_ARRAY 512,
        ReleaseArrayElements LARGE_ARRAY 512 JNI_ABORT]"
proof -
  have h: "LARGE_ARRAY \<noteq> nullptr"
    by (simp add: LARGE_ARRAY_def)
  have l: "getArrayLength TestTraits LARGE_ARRAY (world (test_state 512))
             = (8192, world (test_state 512))"
    by (simp add: TestTraits_def LARGE_ARRAY_SIZE_def)
  have c: "1024 div sizeof (JType (storage_RO JByte True 4096)) < unat (8192 :: size_t)"
    by (simp add: storage_RO_def)
  have g: "kNullable (storage_RO JByte True 4096) \<Longrightarrow> 0 \<le> sint (8192 :: size_t)"
    by simp
  have a: "getArrayElements TestTraits LARGE_ARRAY (world (test_state 512))
             = (512, snd (getArrayElements TestTraits LARGE_ARRAY (world (test_state 512))))"
    by (simp add: TestTraits_def test_state_def)
  show ?thesis
    using h c large_array_is_pinned [OF h l c g a,
        of "\<lparr>calls = [GetArrayLength LARGE_ARRAY 8192, GetArrayElements LARGE_ARRAY 512],
            world = snd (getArrayElements TestTraits LARGE_ARRAY (world (test_state 512)))\<rparr>"]
    by (simp add: storage_RO_def ScopedArrayRO_scope_def test_state_def LARGE_ARRAY_def)
qed

text \<open>
  C3, as the claim states it, fails where the acquire operation returns null: for the
  mock runtime with a null backing pointer the read-write scope records the length
  query and the acquire and no release.
\<close>

theorem failed_acquire_rw_is_not_released:
  "SMALL_ARRAY \<noteq> nullptr
   \<and> calls (ScopedArrayRW_scope TestTraits (storage_RW JByte 0 0) SMALL_ARRAY (test_state 0)) =
       [GetArrayLength SMALL_ARRAY SMALL_ARRAY_SIZE, GetArrayElements SMALL_ARRAY nullptr]
   \<and> release_count
       (calls (ScopedArrayRW_scope TestTraits (storage_RW JByte 0 0) SMALL_ARRAY (test_state 0)))
       \<noteq> 1"
  by (simp add: SMALL_ARRAY_def LARGE_ARRAY_def SMALL_ARRAY_SIZE_def ScopedArrayRW_scope_def
      ScopedArrayRW_ctor_def ScopedArrayRW_dtor_def storage_RW_def TestTraits_def test_state_def
      Let_def Traits_getArrayLength_def Traits_getArrayElements_def release_count_def)

text \<open>
  C3, amended. The read-write accessor on a non-null handle, whatever the length:
  the constructor asks for the length and acquires, once each and with no buffer
  path, and the view pointer is what acquire returned. The destructor makes exactly
  one release call, with mode 0, which is not \<open>JNI_ABORT\<close>, on that pointer when the
  pointer is not null, and no call when it is null. An assignment through
  \<^verbatim>\<open>operator[]\<close> makes no call and stores the value in the memory the pointer
  addresses, and the release operation is given the world that holds the stored value.
\<close>

theorem read_write_pins_and_writes_back:
  assumes "h \<noteq> nullptr"
    and "getArrayLength T h (world s) = (n, w1)"
    and "getArrayElements T h w1 = (p, w2)"
  shows "ScopedArrayRW_ctor T this h s =
           Returned (this\<lparr>mJavaArray_rw := h, mSize_rw := ucast n, mRawArray_rw := p\<rparr>)
             \<lparr>calls = calls s @ [GetArrayLength h n, GetArrayElements h p], world = w2\<rparr>
         \<and> ScopedArrayRW_get (this\<lparr>mJavaArray_rw := h, mSize_rw := ucast n, mRawArray_rw := p\<rparr>) = p
         \<and> ScopedArrayRW_dtor T (this\<lparr>mJavaArray_rw := h, mSize_rw := ucast n, mRawArray_rw := p\<rparr>) s' =
             (if p \<noteq> nullptr then
                \<lparr>calls = calls s' @ [ReleaseArrayElements h p 0],
                 world = releaseArrayElements T h p 0 (world s')\<rparr>
              else s')
         \<and> (0 :: jint) \<noteq> JNI_ABORT
         \<and> ScopedArrayRW_subscript_assign
              (this\<lparr>mJavaArray_rw := h, mSize_rw := ucast n, mRawArray_rw := p\<rparr>) i v s' =
             s'\<lparr>world := (world s')\<lparr>mem := (mem (world s'))
                    (p + i * of_nat (sizeof (JType_rw this)) := v)\<rparr>\<rparr>
         \<and> ScopedArrayRW_dtor T (this\<lparr>mJavaArray_rw := h, mSize_rw := ucast n, mRawArray_rw := p\<rparr>)
              (ScopedArrayRW_subscript_assign
                (this\<lparr>mJavaArray_rw := h, mSize_rw := ucast n, mRawArray_rw := p\<rparr>) i v s') =
             (if p \<noteq> nullptr then
                \<lparr>calls = calls s' @ [ReleaseArrayElements h p 0],
                 world = releaseArrayElements T h p 0
                   ((world s')\<lparr>mem := (mem (world s'))
                      (p + i * of_nat (sizeof (JType_rw this)) := v)\<rparr>)\<rparr>
              else s'\<lparr>world := (world s')\<lparr>mem := (mem (world s'))
                    (p + i * of_nat (sizeof (JType_rw this)) := v)\<rparr>\<rparr>)
         \<and> mem ((world s')\<lparr>mem := (mem (world s'))
                    (p + i * of_nat (sizeof (JType_rw this)) := v)\<rparr>)
               (p + i * of_nat (sizeof (JType_rw this))) = v"
  using assms
  by (simp add: ScopedArrayRW_ctor_def Let_def Traits_getArrayLength_def
      Traits_getArrayElements_def ScopedArrayRW_dtor_def Traits_releaseArrayElements_def
      ScopedArrayRW_subscript_assign_def ScopedArrayRW_element_def ScopedArrayRW_get_def
      JNI_ABORT_def)

theorem read_write_pins_and_writes_back_witness:
  "SMALL_ARRAY \<noteq> nullptr
   \<and> ScopedArrayRW_ctor TestTraits (storage_RW JByte 0 0) SMALL_ARRAY (test_state 512) =
       Returned
         \<lparr>JType_rw = JByte, mJavaArray_rw = SMALL_ARRAY, mRawArray_rw = 512, mSize_rw = 32\<rparr>
         \<lparr>calls = [GetArrayLength SMALL_ARRAY 32, GetArrayElements SMALL_ARRAY 512],
          world = snd (getArrayElements TestTraits SMALL_ARRAY (world (test_state 512)))\<rparr>
   \<and> ScopedArrayRW_subscript_assign
        \<lparr>JType_rw = JByte, mJavaArray_rw = SMALL_ARRAY, mRawArray_rw = 512, mSize_rw = 32\<rparr> 3 7
        (test_state 512) =
       (test_state 512)\<lparr>world := (world (test_state 512))\<lparr>mem := (\<lambda>a. 0)(515 := 7)\<rparr>\<rparr>
   \<and> calls (ScopedArrayRW_dtor TestTraits
        \<lparr>JType_rw = JByte, mJavaArray_rw = SMALL_ARRAY, mRawArray_rw = 512, mSize_rw = 32\<rparr>
        (ScopedArrayRW_subscript_assign
          \<lparr>JType_rw = JByte, mJavaArray_rw = SMALL_ARRAY, mRawArray_rw = 512, mSize_rw = 32\<rparr> 3 7
          (test_state 512))) =
       [ReleaseArrayElements SMALL_ARRAY 512 0]
   \<and> mem (world (ScopedArrayRW_dtor TestTraits
        \<lparr>JType_rw = JByte, mJavaArray_rw = SMALL_ARRAY, mRawArray_rw = 512, mSize_rw = 32\<rparr>
        (ScopedArrayRW_subscript_assign
          \<lparr>JType_rw = JByte, mJavaArray_rw = SMALL_ARRAY, mRawArray_rw = 512, mSize_rw = 32\<rparr> 3 7
          (test_state 512)))) 515 = 7
   \<and> ScopedArrayRW_ctor TestTraits (storage_RW JByte 0 0) SMALL_ARRAY (test_state 0) =
       Returned
         \<lparr>JType_rw = JByte, mJavaArray_rw = SMALL_ARRAY, mRawArray_rw = nullptr, mSize_rw = 32\<rparr>
         \<lparr>calls = [GetArrayLength SMALL_ARRAY 32, GetArrayElements SMALL_ARRAY nullptr],
          world = snd (getArrayElements TestTraits SMALL_ARRAY (world (test_state 0)))\<rparr>
   \<and> ScopedArrayRW_dtor TestTraits
        \<lparr>JType_rw = JByte, mJavaArray_rw = SMALL_ARRAY, mRawArray_rw = nullptr, mSize_rw = 32\<rparr>
        (test_state 0) = test_state 0"
proof -
  have h: "SMALL_ARRAY \<noteq> nullptr"
    by (simp add: SMALL_ARRAY_def)
  have l: "getArrayLength TestTraits SMALL_ARRAY (world (test_state p)) = (32, world (test_state p))"
    for p
    by (simp add: TestTraits_def SMALL_ARRAY_def LARGE_ARRAY_def SMALL_ARRAY_SIZE_def)
  have a: "getArrayElements TestTraits SMALL_ARRAY (world (test_state p))
             = (p, snd (getArrayElements TestTraits SMALL_ARRAY (world (test_state p))))" for p
    by (simp add: TestTraits_def test_state_def)
  show ?thesis
    using h
      read_write_pins_and_writes_back [OF h l [of 512] a [of 512],
        where this = "storage_RW JByte 0 0" and s' = "test_state 512" and i = 3 and v = 7]
      read_write_pins_and_writes_back [OF h l [of 0] a [of 0],
        where this = "storage_RW JByte 0 0" and s' = "test_state 0" and i = 3 and v = 7]
    by (simp add: storage_RW_def test_state_def TestTraits_def ScopedArrayRW_dtor_def
        Traits_releaseArrayElements_def)
qed

text \<open>
  C4 fails for the read-write accessor. Its constructor assigns neither \<open>mRawArray\<close>
  nor \<open>mSize\<close> on the null branch, unlike the read-only one: with the mock runtime,
  whose error hook returns, and storage that held the pointer \<open>48879\<close> and the size
  \<open>7\<close>, the object comes back with exactly these values, a view pointer that is not
  null and a size that is no sentinel.
\<close>

theorem read_write_null_handle_leaves_members_unset:
  "ScopedArrayRW_ctor TestTraits (storage_RW JByte 48879 7) nullptr (test_state 512) =
     Returned
       \<lparr>JType_rw = JByte, mJavaArray_rw = nullptr, mRawArray_rw = 48879, mSize_rw = 7\<rparr>
       \<lparr>calls = [FatalError ''javaArray is null''],
        world = \<lparr>mem = (\<lambda>a. 0),
                 ctx = \<lparr>dummyPtr = 512, getArrayElementsCallCount = 0,
                        releaseArrayElementsCallCount = 0, NPEThrown = True,
                        elementsUpdated = False\<rparr>\<rparr>\<rparr>
   \<and> ScopedArrayRW_get
       \<lparr>JType_rw = JByte, mJavaArray_rw = nullptr, mRawArray_rw = 48879, mSize_rw = 7\<rparr> \<noteq> nullptr
   \<and> ScopedArrayRW_size
       \<lparr>JType_rw = JByte, mJavaArray_rw = nullptr, mRawArray_rw = 48879, mSize_rw = 7\<rparr> = 7"
  by (simp add: ScopedArrayRW_ctor_def storage_RW_def TestTraits_def test_state_def Let_def
      Traits_fatalError_def ScopedArrayRW_get_def ScopedArrayRW_size_def)

text \<open>
  C6 fails for the same read-write accessor on a null handle: the destructor tests the
  member that the constructor left unset, finds it non-null and releases a pointer that
  was never acquired. The scope records one release and no acquire.
\<close>

theorem read_write_null_handle_releases_unacquired:
  "calls (ScopedArrayRW_scope TestTraits (storage_RW JByte 48879 7) nullptr (test_state 512)) =
     [FatalError ''javaArray is null'', ReleaseArrayElements nullptr 48879 0]
   \<and> acquire_count
       (calls (ScopedArrayRW_scope TestTraits (storage_RW JByte 48879 7) nullptr (test_state 512))) = 0
   \<and> release_count
       (calls (ScopedArrayRW_scope TestTraits (storage_RW JByte 48879 7) nullptr (test_state 512))) = 1"
  by (simp add: ScopedArrayRW_scope_def ScopedArrayRW_ctor_def ScopedArrayRW_dtor_def
      storage_RW_def TestTraits_def test_state_def Let_def Traits_fatalError_def
      Traits_releaseArrayElements_def acquire_count_def release_count_def)

text \<open>
  C8. The non-nullable read-only accessor on a null handle, when the error hook
  returns: \<open>mSize\<close> is \<open>-1\<close> stored in a \<^verbatim>\<open>size_t\<close>, so \<open>size()\<close> is \<open>2 ^ 64 - 1\<close>, not a
  negative number. A non-null handle for which the runtime reports the length
  \<open>2 ^ 64 - 1\<close> gives an accessor with the same \<open>size()\<close>.
\<close>

theorem null_sentinel_reads_as_SIZE_MAX:
  assumes "\<not> kNullable this"
    and "fatalError T ''javaArray is null'' (world s) = Some w"
  shows "ScopedArrayRO_ctor T this nullptr s =
           Returned (this\<lparr>mJavaArray := nullptr, mSize := - 1, mRawArray := nullptr\<rparr>)
             \<lparr>calls = calls s @ [FatalError ''javaArray is null''], world = w\<rparr>
         \<and> ScopedArrayRO_size (this\<lparr>mJavaArray := nullptr, mSize := - 1, mRawArray := nullptr\<rparr>)
             = 2 ^ 64 - 1
         \<and> 0 \<le> ScopedArrayRO_size (this\<lparr>mJavaArray := nullptr, mSize := - 1, mRawArray := nullptr\<rparr>)
         \<and> (h \<noteq> nullptr \<and> getArrayLength T h (world s0) = (- 1, w1)
              \<and> getArrayElements T h w1 = (p, w2) \<longrightarrow>
            ScopedArrayRO_ctor T this h s0 =
              Returned (this\<lparr>mJavaArray := h, mSize := - 1, mRawArray := p\<rparr>)
                \<lparr>calls = calls s0 @ [GetArrayLength h (- 1), GetArrayElements h p], world = w2\<rparr>
            \<and> ScopedArrayRO_size (this\<lparr>mJavaArray := h, mSize := - 1, mRawArray := p\<rparr>) =
              ScopedArrayRO_size (this\<lparr>mJavaArray := nullptr, mSize := - 1, mRawArray := nullptr\<rparr>))"
proof -
  have m: "uint (- 1 :: size_t) = 18446744073709551615"
    by (simp add: unsigned_minus_1_eq_mask mask_eq_exp_minus_1)
  have "\<not> (18446744073709551615 :: nat) \<le> 1024 div sizeof (JType this)"
    using capacity_le [of "JType this"] by linarith
  then have "\<not> mSize_le_BUFFER_SIZE (this\<lparr>mJavaArray := h, mSize := - 1\<rparr>)"
    using assms(1) m by (simp add: mSize_le_BUFFER_SIZE_def BUFFER_SIZE_uint)
  then show ?thesis
    using assms m
    by (simp add: ScopedArrayRO_ctor_def Let_def Traits_fatalError_def ScopedArrayRO_size_def
        Traits_getArrayLength_def Traits_getArrayElements_def)
qed

theorem null_sentinel_reads_as_SIZE_MAX_witness:
  "\<not> kNullable (storage_RO JByte False 4096)
   \<and> ScopedArrayRO_ctor TestTraits (storage_RO JByte False 4096) nullptr (test_state 512) =
       Returned
         \<lparr>JType = JByte, kNullable = False, mJavaArray = nullptr, mRawArray = nullptr,
          mSize = - 1, mBuffer = 4096\<rparr>
         \<lparr>calls = [FatalError ''javaArray is null''],
          world = \<lparr>mem = (\<lambda>a. 0),
                   ctx = \<lparr>dummyPtr = 512, getArrayElementsCallCount = 0,
                          releaseArrayElementsCallCount = 0, NPEThrown = True,
                          elementsUpdated = False\<rparr>\<rparr>\<rparr>
   \<and> ScopedArrayRO_size
         \<lparr>JType = JByte, kNullable = False, mJavaArray = nullptr, mRawArray = nullptr,
          mSize = - 1, mBuffer = 4096\<rparr> = 18446744073709551615
   \<and> (1 :: addr) \<noteq> nullptr
   \<and> ScopedArrayRO_ctor (FixedTraits (- 1) 512) (storage_RO JByte False 4096) 1
        \<lparr>calls = [], world = \<lparr>mem = (\<lambda>a. 0 :: nat), ctx = ()\<rparr>\<rparr> =
       Returned
         \<lparr>JType = JByte, kNullable = False, mJavaArray = 1, mRawArray = 512,
          mSize = - 1, mBuffer = 4096\<rparr>
         \<lparr>calls = [GetArrayLength 1 (- 1), GetArrayElements 1 512],
          world = \<lparr>mem = (\<lambda>a. 0 :: nat), ctx = ()\<rparr>\<rparr>
   \<and> ScopedArrayRO_size
         \<lparr>JType = JByte, kNullable = False, mJavaArray = 1, mRawArray = 512,
          mSize = - 1, mBuffer = 4096\<rparr> = 18446744073709551615"
proof -
  let ?s = "\<lparr>calls = [], world = \<lparr>mem = (\<lambda>a. 0 :: nat), ctx = ()\<rparr>\<rparr>"
  have k: "\<not> kNullable (storage_RO JByte False 4096)"
    by (simp add: storage_RO_def)
  have f: "fatalError TestTraits ''javaArray is null'' (world (test_state 512)) =
             Some \<lparr>mem = (\<lambda>a. 0),
                   ctx = \<lparr>dummyPtr = 512, getArrayElementsCallCount = 0,
                          releaseArrayElementsCallCount = 0, NPEThrown = True,
                          elementsUpdated = False\<rparr>\<rparr>"
    by (simp add: TestTraits_def test_state_def)
  have f': "fatalError (FixedTraits (- 1) 512) ''javaArray is null'' (world ?s) = Some (world ?s)"
    by (simp add: FixedTraits_def)
  have l: "getArrayLength (FixedTraits (- 1) 512) 1 (world ?s) = (- 1, world ?s)"
    by (simp add: FixedTraits_def)
  have a: "getArrayElements (FixedTraits (- 1) 512) 1 (world ?s) = (512, world ?s)"
    by (simp add: FixedTraits_def)
  show ?thesis
    using k l a
      null_sentinel_reads_as_SIZE_MAX [OF k f]
      null_sentinel_reads_as_SIZE_MAX [OF k f', where h = 1 and ?s0.0 = ?s and ?w1.0 = "world ?s"
        and p = 512 and ?w2.0 = "world ?s"]
    by (simp add: storage_RO_def test_state_def)
qed

text \<open>
  C9. \<^verbatim>\<open>operator[]\<close> of both accessors, read and written, has no test: for every
  pointer and every index it reads, or stores to, the memory cell \<open>n\<close> elements past
  the held pointer. The guarded access agrees with it when the pointer is not null and
  the index is below the element count, never taking its fault branch there, and
  faults exactly when the pointer is null or the index is not below the count. For a
  view that does not wrap around the address space, the cell lies between \<open>begin()\<close>
  and \<open>end()\<close> exactly when the index is below the count; past the count the access
  is outside the view, and the null view of the nullable variant contains no cell.
\<close>

theorem subscript_is_unchecked:
  "ScopedArrayRO_subscript ro n s =
     mem (world s) (ScopedArrayRO_get ro + n * of_nat (sizeof (JType ro)))
   \<and> ScopedArrayRW_subscript rw n s =
     mem (world s) (ScopedArrayRW_get rw + n * of_nat (sizeof (JType_rw rw)))
   \<and> ScopedArrayRW_subscript_assign rw n v s =
     s\<lparr>world := (world s)\<lparr>mem := (mem (world s))
        (ScopedArrayRW_get rw + n * of_nat (sizeof (JType_rw rw)) := v)\<rparr>\<rparr>
   \<and> (mRawArray ro \<noteq> nullptr \<and> uint n < ScopedArrayRO_size ro \<longrightarrow>
        guarded_ScopedArrayRO_subscript ro n s = Inr (ScopedArrayRO_subscript ro n s))
   \<and> (mRawArray_rw rw \<noteq> nullptr \<and> n < ScopedArrayRW_size rw \<longrightarrow>
        guarded_ScopedArrayRW_subscript rw n s = Inr (ScopedArrayRW_subscript rw n s)
        \<and> guarded_ScopedArrayRW_subscript_assign rw n v s =
            Inr (ScopedArrayRW_subscript_assign rw n v s))
   \<and> ((guarded_ScopedArrayRO_subscript ro n s = Inl OutOfRange) =
        (mRawArray ro = nullptr \<or> ScopedArrayRO_size ro \<le> uint n))
   \<and> ((guarded_ScopedArrayRW_subscript rw n s = Inl OutOfRange) =
        (mRawArray_rw rw = nullptr \<or> ScopedArrayRW_size rw \<le> n))
   \<and> ((guarded_ScopedArrayRW_subscript_assign rw n v s = Inl OutOfRange) =
        (mRawArray_rw rw = nullptr \<or> ScopedArrayRW_size rw \<le> n))
   \<and> (mRawArray ro \<noteq> nullptr \<and> 0 \<le> ScopedArrayRO_size ro
        \<and> unat (mRawArray ro) + unat (mSize ro) * sizeof (JType ro) < 2 ^ 64
        \<and> unat (mRawArray ro) + unat n * sizeof (JType ro) < 2 ^ 64 \<longrightarrow>
        (ScopedArrayRO_begin ro \<le> ScopedArrayRO_element ro n
         \<and> ScopedArrayRO_element ro n < ScopedArrayRO_end ro) = (uint n < ScopedArrayRO_size ro))
   \<and> (kNullable ro \<and> mRawArray ro = nullptr \<longrightarrow>
        \<not> (ScopedArrayRO_begin ro \<le> ScopedArrayRO_element ro n
           \<and> ScopedArrayRO_element ro n < ScopedArrayRO_end ro))
   \<and> (unat (mRawArray_rw rw) + unat (ScopedArrayRW_size rw) * sizeof (JType_rw rw) < 2 ^ 64
        \<and> unat (mRawArray_rw rw) + unat n * sizeof (JType_rw rw) < 2 ^ 64 \<longrightarrow>
        (ScopedArrayRW_begin rw \<le> ScopedArrayRW_element rw n
         \<and> ScopedArrayRW_element rw n < ScopedArrayRW_end rw) = (n < ScopedArrayRW_size rw))"
proof -
  have raw:
    "ScopedArrayRO_subscript ro n s =
       mem (world s) (ScopedArrayRO_get ro + n * of_nat (sizeof (JType ro)))"
    "ScopedArrayRW_subscript rw n s =
       mem (world s) (ScopedArrayRW_get rw + n * of_nat (sizeof (JType_rw rw)))"
    "ScopedArrayRW_subscript_assign rw n v s =
       s\<lparr>world := (world s)\<lparr>mem := (mem (world s))
          (ScopedArrayRW_get rw + n * of_nat (sizeof (JType_rw rw)) := v)\<rparr>\<rparr>"
    by (simp_all add: ScopedArrayRO_subscript_def ScopedArrayRW_subscript_def
        ScopedArrayRW_subscript_assign_def ScopedArrayRO_element_def ScopedArrayRW_element_def
        ScopedArrayRO_get_def ScopedArrayRW_get_def)
  have grd:
    "mRawArray ro \<noteq> nullptr \<and> uint n < ScopedArrayRO_size ro \<longrightarrow>
        guarded_ScopedArrayRO_subscript ro n s = Inr (ScopedArrayRO_subscript ro n s)"
    "mRawArray_rw rw \<noteq> nullptr \<and> n < ScopedArrayRW_size rw \<longrightarrow>
        guarded_ScopedArrayRW_subscript rw n s = Inr (ScopedArrayRW_subscript rw n s)
        \<and> guarded_ScopedArrayRW_subscript_assign rw n v s =
            Inr (ScopedArrayRW_subscript_assign rw n v s)"
    "(guarded_ScopedArrayRO_subscript ro n s = Inl OutOfRange) =
        (mRawArray ro = nullptr \<or> ScopedArrayRO_size ro \<le> uint n)"
    "(guarded_ScopedArrayRW_subscript rw n s = Inl OutOfRange) =
        (mRawArray_rw rw = nullptr \<or> ScopedArrayRW_size rw \<le> n)"
    "(guarded_ScopedArrayRW_subscript_assign rw n v s = Inl OutOfRange) =
        (mRawArray_rw rw = nullptr \<or> ScopedArrayRW_size rw \<le> n)"
    by (auto simp add: guarded_ScopedArrayRO_subscript_def guarded_ScopedArrayRW_subscript_def
        guarded_ScopedArrayRW_subscript_assign_def)
  have emp: "kNullable ro \<and> mRawArray ro = nullptr \<longrightarrow>
        \<not> (ScopedArrayRO_begin ro \<le> ScopedArrayRO_element ro n
           \<and> ScopedArrayRO_element ro n < ScopedArrayRO_end ro)"
    by (auto simp add: ScopedArrayRO_begin_def ScopedArrayRO_end_def ScopedArrayRO_get_def)
  show ?thesis
    using raw grd emp ScopedArrayRO_element_in_view [of ro n]
      ScopedArrayRW_element_in_view [of rw n]
    by blast
qed

theorem subscript_is_unchecked_witness:
  "mRawArray \<lparr>JType = JInt, kNullable = True, mJavaArray = 2, mRawArray = 4096, mSize = 32,
       mBuffer = 4096\<rparr> \<noteq> nullptr
   \<and> uint (5 :: size_t) < ScopedArrayRO_size
       \<lparr>JType = JInt, kNullable = True, mJavaArray = 2, mRawArray = 4096, mSize = 32,
        mBuffer = 4096\<rparr>
   \<and> unat (4096 :: addr) + unat (32 :: size_t) * sizeof JInt < 2 ^ 64
   \<and> unat (4096 :: addr) + unat (5 :: size_t) * sizeof JInt < 2 ^ 64
   \<and> ScopedArrayRO_subscript
       \<lparr>JType = JInt, kNullable = True, mJavaArray = 2, mRawArray = 4096, mSize = 32,
        mBuffer = 4096\<rparr> 5
       \<lparr>calls = [],
        world = \<lparr>mem = (\<lambda>a. if a = 4116 then 9 else if a = 4224 then 43981 else 0 :: nat),
                 ctx = ()\<rparr>\<rparr> = 9
   \<and> guarded_ScopedArrayRO_subscript
       \<lparr>JType = JInt, kNullable = True, mJavaArray = 2, mRawArray = 4096, mSize = 32,
        mBuffer = 4096\<rparr> 5
       \<lparr>calls = [],
        world = \<lparr>mem = (\<lambda>a. if a = 4116 then 9 else if a = 4224 then 43981 else 0 :: nat),
                 ctx = ()\<rparr>\<rparr> = Inr 9
   \<and> ScopedArrayRO_element
       \<lparr>JType = JInt, kNullable = True, mJavaArray = 2, mRawArray = 4096, mSize = 32,
        mBuffer = 4096\<rparr> 5
       < ScopedArrayRO_end
       \<lparr>JType = JInt, kNullable = True, mJavaArray = 2, mRawArray = 4096, mSize = 32,
        mBuffer = 4096\<rparr>
   \<and> ScopedArrayRO_subscript
       \<lparr>JType = JInt, kNullable = True, mJavaArray = 2, mRawArray = 4096, mSize = 32,
        mBuffer = 4096\<rparr> 32
       \<lparr>calls = [],
        world = \<lparr>mem = (\<lambda>a. if a = 4116 then 9 else if a = 4224 then 43981 else 0 :: nat),
                 ctx = ()\<rparr>\<rparr> = 43981
   \<and> guarded_ScopedArrayRO_subscript
       \<lparr>JType = JInt, kNullable = True, mJavaArray = 2, mRawArray = 4096, mSize = 32,
        mBuffer = 4096\<rparr> 32
       \<lparr>calls = [],
        world = \<lparr>mem = (\<lambda>a. if a = 4116 then 9 else if a = 4224 then 43981 else 0 :: nat),
                 ctx = ()\<rparr>\<rparr> = Inl OutOfRange
   \<and> \<not> ScopedArrayRO_element
       \<lparr>JType = JInt, kNullable = True, mJavaArray = 2, mRawArray = 4096, mSize = 32,
        mBuffer = 4096\<rparr> 32
       < ScopedArrayRO_end
       \<lparr>JType = JInt, kNullable = True, mJavaArray = 2, mRawArray = 4096, mSize = 32,
        mBuffer = 4096\<rparr>
   \<and> mRawArray_rw \<lparr>JType_rw = JInt, mJavaArray_rw = 2, mRawArray_rw = 4096, mSize_rw = 32\<rparr>
       \<noteq> nullptr
   \<and> (5 :: size_t) < ScopedArrayRW_size
       \<lparr>JType_rw = JInt, mJavaArray_rw = 2, mRawArray_rw = 4096, mSize_rw = 32\<rparr>
   \<and> guarded_ScopedArrayRW_subscript
       \<lparr>JType_rw = JInt, mJavaArray_rw = 2, mRawArray_rw = 4096, mSize_rw = 32\<rparr> 5
       \<lparr>calls = [],
        world = \<lparr>mem = (\<lambda>a. if a = 4116 then 9 else if a = 4224 then 43981 else 0 :: nat),
                 ctx = ()\<rparr>\<rparr> = Inr 9
   \<and> mem (world (ScopedArrayRW_subscript_assign
       \<lparr>JType_rw = JInt, mJavaArray_rw = 2, mRawArray_rw = 4096, mSize_rw = 32\<rparr> 32 7
       \<lparr>calls = [],
        world = \<lparr>mem = (\<lambda>a. if a = 4116 then 9 else if a = 4224 then 43981 else 0 :: nat),
                 ctx = ()\<rparr>\<rparr>)) 4224 = 7
   \<and> ScopedArrayRW_element
       \<lparr>JType_rw = JInt, mJavaArray_rw = 2, mRawArray_rw = 4096, mSize_rw = 32\<rparr> 5
       < ScopedArrayRW_end
       \<lparr>JType_rw = JInt, mJavaArray_rw = 2, mRawArray_rw = 4096, mSize_rw = 32\<rparr>"
  using subscript_is_unchecked
    [of "\<lparr>JType = JInt, kNullable = True, mJavaArray = 2, mRawArray = 4096, mSize = 32,
          mBuffer = 4096\<rparr>" 5
        "\<lparr>calls = [],
          world = \<lparr>mem = (\<lambda>a. if a = 4116 then 9 else if a = 4224 then 43981 else 0 :: nat),
                   ctx = ()\<rparr>\<rparr>"
        "\<lparr>JType_rw = JInt, mJavaArray_rw = 2, mRawArray_rw = 4096, mSize_rw = 32\<rparr>" 7]
    subscript_is_unchecked
    [of "\<lparr>JType = JInt, kNullable = True, mJavaArray = 2, mRawArray = 4096, mSize = 32,
          mBuffer = 4096\<rparr>" 32
        "\<lparr>calls = [],
          world = \<lparr>mem = (\<lambda>a. if a = 4116 then 9 else if a = 4224 then 43981 else 0 :: nat),
                   ctx = ()\<rparr>\<rparr>"
        "\<lparr>JType_rw = JInt, mJavaArray_rw = 2, mRawArray_rw = 4096, mSize_rw = 32\<rparr>" 7]
  by (simp add: ScopedArrayRO_size_def ScopedArrayRW_size_def ScopedArrayRO_get_def
      ScopedArrayRW_get_def ScopedArrayRO_element_def ScopedArrayRW_element_def
      ScopedArrayRO_begin_def ScopedArrayRW_begin_def ScopedArrayRO_end_def ScopedArrayRW_end_def)

text \<open>
  C10. Every observer of either accessor hands back the object and the state it was
  given, and \<open>getJavaArray()\<close> of an object that a constructor returned is the handle
  the constructor was given, null or not.
\<close>

theorem observers_change_nothing:
  "snd (ScopedArrayRO_observe ob ro s) = (ro, s)
   \<and> snd (ScopedArrayRW_observe ob rw s) = (rw, s)
   \<and> (ScopedArrayRO_ctor T this h s0 = Returned a s1 \<longrightarrow>
        ScopedArrayRO_getJavaArray a = h
        \<and> fst (ScopedArrayRO_observe GetJavaArray a s) = Pointer h)
   \<and> (ScopedArrayRW_ctor T this' h' s0' = Returned b s1' \<longrightarrow>
        ScopedArrayRW_getJavaArray b = h'
        \<and> fst (ScopedArrayRW_observe GetJavaArray b s) = Pointer h')"
proof -
  have "snd (ScopedArrayRO_observe ob ro s) = (ro, s)"
    by (cases ob) simp_all
  moreover have "snd (ScopedArrayRW_observe ob rw s) = (rw, s)"
    by (cases ob) simp_all
  moreover have "ScopedArrayRO_ctor T this h s0 = Returned a s1 \<longrightarrow>
        ScopedArrayRO_getJavaArray a = h
        \<and> fst (ScopedArrayRO_observe GetJavaArray a s) = Pointer h"
    using ScopedArrayRO_ctor_keeps_handle [of T this h s0 a s1]
    by (simp add: ScopedArrayRO_getJavaArray_def)
  moreover have "ScopedArrayRW_ctor T this' h' s0' = Returned b s1' \<longrightarrow>
        ScopedArrayRW_getJavaArray b = h'
        \<and> fst (ScopedArrayRW_observe GetJavaArray b s) = Pointer h'"
    using ScopedArrayRW_ctor_keeps_handle [of T this' h' s0' b s1']
    by (simp add: ScopedArrayRW_getJavaArray_def)
  ultimately show ?thesis by blast
qed

theorem observers_change_nothing_witness:
  "snd (ScopedArrayRO_observe End
         \<lparr>JType = JByte, kNullable = True, mJavaArray = nullptr, mRawArray = nullptr,
          mSize = - 1, mBuffer = 4096\<rparr> (test_state 512)) =
     (\<lparr>JType = JByte, kNullable = True, mJavaArray = nullptr, mRawArray = nullptr,
       mSize = - 1, mBuffer = 4096\<rparr>, test_state 512)
   \<and> snd (ScopedArrayRW_observe End
         \<lparr>JType_rw = JByte, mJavaArray_rw = SMALL_ARRAY, mRawArray_rw = 512, mSize_rw = 32\<rparr>
         (test_state 512)) =
     (\<lparr>JType_rw = JByte, mJavaArray_rw = SMALL_ARRAY, mRawArray_rw = 512, mSize_rw = 32\<rparr>,
      test_state 512)
   \<and> ScopedArrayRO_ctor TestTraits (storage_RO JByte True 4096) nullptr (test_state 512) =
       Returned
         \<lparr>JType = JByte, kNullable = True, mJavaArray = nullptr, mRawArray = nullptr,
          mSize = - 1, mBuffer = 4096\<rparr> (test_state 512)
   \<and> ScopedArrayRO_getJavaArray
         \<lparr>JType = JByte, kNullable = True, mJavaArray = nullptr, mRawArray = nullptr,
          mSize = - 1, mBuffer = 4096\<rparr> = nullptr
   \<and> ScopedArrayRW_ctor TestTraits (storage_RW JByte 0 0) SMALL_ARRAY (test_state 512) =
       Returned
         \<lparr>JType_rw = JByte, mJavaArray_rw = SMALL_ARRAY, mRawArray_rw = 512, mSize_rw = 32\<rparr>
         \<lparr>calls = [GetArrayLength SMALL_ARRAY 32, GetArrayElements SMALL_ARRAY 512],
          world = snd (getArrayElements TestTraits SMALL_ARRAY (world (test_state 512)))\<rparr>
   \<and> ScopedArrayRW_getJavaArray
         \<lparr>JType_rw = JByte, mJavaArray_rw = SMALL_ARRAY, mRawArray_rw = 512, mSize_rw = 32\<rparr>
       = SMALL_ARRAY"
proof -
  have ro: "ScopedArrayRO_ctor TestTraits (storage_RO JByte True 4096) nullptr (test_state 512) =
       Returned
         \<lparr>JType = JByte, kNullable = True, mJavaArray = nullptr, mRawArray = nullptr,
          mSize = - 1, mBuffer = 4096\<rparr> (test_state 512)"
    by (simp add: ScopedArrayRO_ctor_def storage_RO_def Let_def)
  have rw: "ScopedArrayRW_ctor TestTraits (storage_RW JByte 0 0) SMALL_ARRAY (test_state 512) =
       Returned
         \<lparr>JType_rw = JByte, mJavaArray_rw = SMALL_ARRAY, mRawArray_rw = 512, mSize_rw = 32\<rparr>
         \<lparr>calls = [GetArrayLength SMALL_ARRAY 32, GetArrayElements SMALL_ARRAY 512],
          world = snd (getArrayElements TestTraits SMALL_ARRAY (world (test_state 512)))\<rparr>"
    by (simp add: ScopedArrayRW_ctor_def storage_RW_def Let_def Traits_getArrayLength_def
        Traits_getArrayElements_def TestTraits_def test_state_def SMALL_ARRAY_def LARGE_ARRAY_def
        SMALL_ARRAY_SIZE_def)
  show ?thesis
    using ro rw
      observers_change_nothing
        [where ob = End
           and ro = "\<lparr>JType = JByte, kNullable = True, mJavaArray = nullptr, mRawArray = nullptr,
                      mSize = - 1, mBuffer = 4096\<rparr>"
           and s = "test_state 512"
           and rw = "\<lparr>JType_rw = JByte, mJavaArray_rw = SMALL_ARRAY, mRawArray_rw = 512,
                      mSize_rw = 32\<rparr>"
           and T = TestTraits and this = "storage_RO JByte True 4096" and h = nullptr
           and ?s0.0 = "test_state 512"
           and a = "\<lparr>JType = JByte, kNullable = True, mJavaArray = nullptr, mRawArray = nullptr,
                     mSize = - 1, mBuffer = 4096\<rparr>"
           and ?s1.0 = "test_state 512"
           and this' = "storage_RW JByte 0 0" and h' = SMALL_ARRAY
           and s0' = "test_state 512"
           and b = "\<lparr>JType_rw = JByte, mJavaArray_rw = SMALL_ARRAY, mRawArray_rw = 512,
                     mSize_rw = 32\<rparr>"
           and s1' = "\<lparr>calls = [GetArrayLength SMALL_ARRAY 32, GetArrayElements SMALL_ARRAY 512],
                world = snd (getArrayElements TestTraits SMALL_ARRAY (world (test_state 512)))\<rparr>"]
    by simp
qed

text \<open>
  C7, as the claim states it, fails where the acquire operation returns null: the
  first repetition of the read-only scope over the large array, for the mock runtime
  with a null backing pointer, makes one acquire call and no release call.
\<close>

theorem failed_acquire_unbalances_counts:
  "LARGE_ARRAY \<noteq> nullptr
   \<and> acquire_count (repetition_calls
        (ScopedArrayRO_scope TestTraits (storage_RO JByte False 4096) LARGE_ARRAY) 0 (test_state 0)) = 1
   \<and> release_count (repetition_calls
        (ScopedArrayRO_scope TestTraits (storage_RO JByte False 4096) LARGE_ARRAY) 0 (test_state 0)) = 0"
  by (simp add: LARGE_ARRAY_def LARGE_ARRAY_SIZE_def repetition_calls_def ScopedArrayRO_scope_def
      ScopedArrayRO_ctor_def ScopedArrayRO_dtor_def storage_RO_def TestTraits_def test_state_def
      Let_def Traits_getArrayLength_def Traits_getArrayElements_def mSize_le_BUFFER_SIZE_def
      BUFFER_SIZE_def acquire_count_def release_count_def)

text \<open>
  C7, amended. For any handle given to the read-only accessor and any non-null
  handle given to the read-write accessor, in every repetition of the scope, whatever
  state the runtime is in: the release calls are as many as the acquire calls that
  returned a releasable pointer (non-null and, for the read-only accessor, not the
  embedded buffer), and there is at most one acquire call. So the two counts are equal
  when the acquire, if one is made, returns a releasable pointer, and no release call
  is made when it returns null. Two repetitions in which the runtime reports the same
  length and acquire is alike releasable make the same number of acquire calls and the
  same number of release calls.
\<close>

theorem repeated_scopes_balance:
  "release_count (repetition_calls (ScopedArrayRO_scope T ro h) i s) =
     length (filter (\<lambda>p. p \<noteq> nullptr \<and> p \<noteq> mBuffer ro)
       (acquired_pointers (repetition_calls (ScopedArrayRO_scope T ro h) i s)))
   \<and> acquire_count (repetition_calls (ScopedArrayRO_scope T ro h) i s) =
     length (acquired_pointers (repetition_calls (ScopedArrayRO_scope T ro h) i s))
   \<and> acquire_count (repetition_calls (ScopedArrayRO_scope T ro h) i s) \<le> 1
   \<and> ((\<forall>p \<in> set (acquired_pointers (repetition_calls (ScopedArrayRO_scope T ro h) i s)).
          p \<noteq> nullptr \<and> p \<noteq> mBuffer ro) \<longrightarrow>
        release_count (repetition_calls (ScopedArrayRO_scope T ro h) i s) =
          acquire_count (repetition_calls (ScopedArrayRO_scope T ro h) i s))
   \<and> (nullptr \<in> set (acquired_pointers (repetition_calls (ScopedArrayRO_scope T ro h) i s)) \<longrightarrow>
        release_count (repetition_calls (ScopedArrayRO_scope T ro h) i s) = 0)
   \<and> (reported_length T h ((ScopedArrayRO_scope T ro h ^^ i) s) =
         reported_length T h ((ScopedArrayRO_scope T ro h ^^ j) s)
       \<and> (acquired_pointer T h ((ScopedArrayRO_scope T ro h ^^ i) s) \<noteq> nullptr
            \<and> acquired_pointer T h ((ScopedArrayRO_scope T ro h ^^ i) s) \<noteq> mBuffer ro) =
         (acquired_pointer T h ((ScopedArrayRO_scope T ro h ^^ j) s) \<noteq> nullptr
            \<and> acquired_pointer T h ((ScopedArrayRO_scope T ro h ^^ j) s) \<noteq> mBuffer ro) \<longrightarrow>
        acquire_count (repetition_calls (ScopedArrayRO_scope T ro h) i s) =
          acquire_count (repetition_calls (ScopedArrayRO_scope T ro h) j s)
        \<and> release_count (repetition_calls (ScopedArrayRO_scope T ro h) i s) =
          release_count (repetition_calls (ScopedArrayRO_scope T ro h) j s))
   \<and> (h \<noteq> nullptr \<longrightarrow>
        release_count (repetition_calls (ScopedArrayRW_scope T rw h) i s) =
          length (filter (\<lambda>p. p \<noteq> nullptr)
            (acquired_pointers (repetition_calls (ScopedArrayRW_scope T rw h) i s)))
        \<and> acquire_count (repetition_calls (ScopedArrayRW_scope T rw h) i s) = 1
        \<and> acquire_count (repetition_calls (ScopedArrayRW_scope T rw h) i s) =
          acquire_count (repetition_calls (ScopedArrayRW_scope T rw h) j s)
        \<and> ((\<forall>p \<in> set (acquired_pointers (repetition_calls (ScopedArrayRW_scope T rw h) i s)).
               p \<noteq> nullptr) \<longrightarrow>
             release_count (repetition_calls (ScopedArrayRW_scope T rw h) i s) =
               acquire_count (repetition_calls (ScopedArrayRW_scope T rw h) i s))
        \<and> (nullptr \<in> set (acquired_pointers (repetition_calls (ScopedArrayRW_scope T rw h) i s)) \<longrightarrow>
             release_count (repetition_calls (ScopedArrayRW_scope T rw h) i s) = 0)
        \<and> ((acquired_pointer T h ((ScopedArrayRW_scope T rw h ^^ i) s) \<noteq> nullptr) =
             (acquired_pointer T h ((ScopedArrayRW_scope T rw h ^^ j) s) \<noteq> nullptr) \<longrightarrow>
             release_count (repetition_calls (ScopedArrayRW_scope T rw h) i s) =
               release_count (repetition_calls (ScopedArrayRW_scope T rw h) j s)))"
proof -
  have ro: "release_count (repetition_calls (ScopedArrayRO_scope T ro h) i s) =
     length (filter (\<lambda>p. p \<noteq> nullptr \<and> p \<noteq> mBuffer ro)
       (acquired_pointers (repetition_calls (ScopedArrayRO_scope T ro h) i s)))
   \<and> acquire_count (repetition_calls (ScopedArrayRO_scope T ro h) i s) \<le> 1
   \<and> ((\<forall>p \<in> set (acquired_pointers (repetition_calls (ScopedArrayRO_scope T ro h) i s)).
          p \<noteq> nullptr \<and> p \<noteq> mBuffer ro) \<longrightarrow>
        release_count (repetition_calls (ScopedArrayRO_scope T ro h) i s) =
          acquire_count (repetition_calls (ScopedArrayRO_scope T ro h) i s))
   \<and> (nullptr \<in> set (acquired_pointers (repetition_calls (ScopedArrayRO_scope T ro h) i s)) \<longrightarrow>
        release_count (repetition_calls (ScopedArrayRO_scope T ro h) i s) = 0)"
    using ScopedArrayRO_repetition [of T ro h i s]
    by (simp add: acquire_count_acquired_pointers)
  have ro2: "reported_length T h ((ScopedArrayRO_scope T ro h ^^ i) s) =
         reported_length T h ((ScopedArrayRO_scope T ro h ^^ j) s)
       \<and> (acquired_pointer T h ((ScopedArrayRO_scope T ro h ^^ i) s) \<noteq> nullptr
            \<and> acquired_pointer T h ((ScopedArrayRO_scope T ro h ^^ i) s) \<noteq> mBuffer ro) =
         (acquired_pointer T h ((ScopedArrayRO_scope T ro h ^^ j) s) \<noteq> nullptr
            \<and> acquired_pointer T h ((ScopedArrayRO_scope T ro h ^^ j) s) \<noteq> mBuffer ro) \<longrightarrow>
        acquire_count (repetition_calls (ScopedArrayRO_scope T ro h) i s) =
          acquire_count (repetition_calls (ScopedArrayRO_scope T ro h) j s)
        \<and> release_count (repetition_calls (ScopedArrayRO_scope T ro h) i s) =
          release_count (repetition_calls (ScopedArrayRO_scope T ro h) j s)"
    using ScopedArrayRO_repetition [of T ro h i s] ScopedArrayRO_repetition [of T ro h j s]
    by (simp add: acquire_count_acquired_pointers)
  have rw: "h \<noteq> nullptr \<longrightarrow>
        release_count (repetition_calls (ScopedArrayRW_scope T rw h) i s) =
          length (filter (\<lambda>p. p \<noteq> nullptr)
            (acquired_pointers (repetition_calls (ScopedArrayRW_scope T rw h) i s)))
        \<and> acquire_count (repetition_calls (ScopedArrayRW_scope T rw h) i s) = 1
        \<and> acquire_count (repetition_calls (ScopedArrayRW_scope T rw h) i s) =
          acquire_count (repetition_calls (ScopedArrayRW_scope T rw h) j s)
        \<and> ((\<forall>p \<in> set (acquired_pointers (repetition_calls (ScopedArrayRW_scope T rw h) i s)).
               p \<noteq> nullptr) \<longrightarrow>
             release_count (repetition_calls (ScopedArrayRW_scope T rw h) i s) =
               acquire_count (repetition_calls (ScopedArrayRW_scope T rw h) i s))
        \<and> (nullptr \<in> set (acquired_pointers (repetition_calls (ScopedArrayRW_scope T rw h) i s)) \<longrightarrow>
             release_count (repetition_calls (ScopedArrayRW_scope T rw h) i s) = 0)
        \<and> ((acquired_pointer T h ((ScopedArrayRW_scope T rw h ^^ i) s) \<noteq> nullptr) =
             (acquired_pointer T h ((ScopedArrayRW_scope T rw h ^^ j) s) \<noteq> nullptr) \<longrightarrow>
             release_count (repetition_calls (ScopedArrayRW_scope T rw h) i s) =
               release_count (repetition_calls (ScopedArrayRW_scope T rw h) j s))"
    using ScopedArrayRW_repetition [of h T rw i s] ScopedArrayRW_repetition [of h T rw j s]
    by (simp add: acquire_count_acquired_pointers)
  show ?thesis
    using ro ro2 rw acquire_count_acquired_pointers by blast
qed

theorem repeated_scopes_balance_witness:
  "LARGE_ARRAY \<noteq> nullptr
   \<and> reported_length TestTraits LARGE_ARRAY
       ((ScopedArrayRO_scope TestTraits (storage_RO JByte False 4096) LARGE_ARRAY ^^ Suc 0)
          (test_state 512)) =
     reported_length TestTraits LARGE_ARRAY
       ((ScopedArrayRO_scope TestTraits (storage_RO JByte False 4096) LARGE_ARRAY ^^ 0)
          (test_state 512))
   \<and> acquired_pointer TestTraits LARGE_ARRAY
       ((ScopedArrayRO_scope TestTraits (storage_RO JByte False 4096) LARGE_ARRAY ^^ Suc 0)
          (test_state 512)) = 512
   \<and> acquired_pointer TestTraits LARGE_ARRAY
       ((ScopedArrayRO_scope TestTraits (storage_RO JByte False 4096) LARGE_ARRAY ^^ 0)
          (test_state 512)) = 512
   \<and> acquired_pointers (repetition_calls
        (ScopedArrayRO_scope TestTraits (storage_RO JByte False 4096) LARGE_ARRAY) (Suc 0)
        (test_state 512)) = [512]
   \<and> acquire_count (repetition_calls
        (ScopedArrayRO_scope TestTraits (storage_RO JByte False 4096) LARGE_ARRAY) (Suc 0)
        (test_state 512)) =
     acquire_count (repetition_calls
        (ScopedArrayRO_scope TestTraits (storage_RO JByte False 4096) LARGE_ARRAY) 0
        (test_state 512))
   \<and> release_count (repetition_calls
        (ScopedArrayRO_scope TestTraits (storage_RO JByte False 4096) LARGE_ARRAY) (Suc 0)
        (test_state 512)) =
     release_count (repetition_calls
        (ScopedArrayRO_scope TestTraits (storage_RO JByte False 4096) LARGE_ARRAY) 0
        (test_state 512))
   \<and> release_count (repetition_calls
        (ScopedArrayRO_scope TestTraits (storage_RO JByte False 4096) LARGE_ARRAY) (Suc 0)
        (test_state 512)) =
     acquire_count (repetition_calls
        (ScopedArrayRO_scope TestTraits (storage_RO JByte False 4096) LARGE_ARRAY) (Suc 0)
        (test_state 512))
   \<and> acquired_pointers (repetition_calls
        (ScopedArrayRW_scope TestTraits (storage_RW JByte 0 0) LARGE_ARRAY) (Suc 0)
        (test_state 512)) = [512]
   \<and> release_count (repetition_calls
        (ScopedArrayRW_scope TestTraits (storage_RW JByte 0 0) LARGE_ARRAY) (Suc 0)
        (test_state 512)) =
     acquire_count (repetition_calls
        (ScopedArrayRW_scope TestTraits (storage_RW JByte 0 0) LARGE_ARRAY) (Suc 0)
        (test_state 512))
   \<and> release_count (repetition_calls
        (ScopedArrayRW_scope TestTraits (storage_RW JByte 0 0) LARGE_ARRAY) (Suc 0)
        (test_state 512)) =
     release_count (repetition_calls
        (ScopedArrayRW_scope TestTraits (storage_RW JByte 0 0) LARGE_ARRAY) 0
        (test_state 512))"
proof -
  have h: "LARGE_ARRAY \<noteq> nullptr"
    by (simp add: LARGE_ARRAY_def)
  show ?thesis
    using h
      repeated_scopes_balance [of TestTraits "storage_RO JByte False 4096" LARGE_ARRAY "Suc 0"
        "test_state 512" 0 "storage_RW JByte 0 0"]
    by (simp add: repetition_calls_def reported_length_def acquired_pointer_def
        ScopedArrayRO_scope_def ScopedArrayRO_ctor_def ScopedArrayRO_dtor_def
        ScopedArrayRW_scope_def ScopedArrayRW_ctor_def ScopedArrayRW_dtor_def
        storage_RO_def storage_RW_def TestTraits_def test_state_def Let_def
        Traits_getArrayLength_def Traits_getArrayElements_def Traits_releaseArrayElements_def
        mSize_le_BUFFER_SIZE_def BUFFER_SIZE_def LARGE_ARRAY_def LARGE_ARRAY_SIZE_def
        acquire_count_def release_count_def)
qed

end
